theory Spec2Isabelle
  imports Main "HOL-Library.Word" "HOL-Library.AList"
begin

section \<open>JavaScript strings, numbers and JSON text\<close>

text \<open>
  A JavaScript string is a sequence of UTF-16 code units. String literals of the
  source are ASCII and are written \<open>ascii ''...''\<close>.
\<close>

type_synonym jsstring = "16 word list"

definition ascii :: "string \<Rightarrow> jsstring" where
  "ascii s = map (\<lambda>c. of_nat (of_char c)) s"

text \<open>\<open>String.prototype.startsWith\<close>.\<close>

fun startsWith :: "jsstring \<Rightarrow> jsstring \<Rightarrow> bool" where
  "startsWith s [] = True"
| "startsWith [] (p # ps) = False"
| "startsWith (c # cs) (p # ps) = (c = p \<and> startsWith cs ps)"

text \<open>
  Numbers are modelled as integers where the code computes with HTTP status codes, byte
  counts, list lengths and times in milliseconds, which JavaScript represents exactly
  below \<open>2^53\<close>. The value of \<open>parseInt\<close> and the retry delay computed from it are
  not bounded by the code; they are modelled as IEEE 754 doubles further down.

  \<open>Number.prototype.toString\<close>, also the conversion of a number inside a
  template literal, for such integers.
\<close>

definition digit_char :: "nat \<Rightarrow> 16 word" where
  "digit_char d = of_nat (48 + d)"

function digits :: "nat \<Rightarrow> jsstring" where
  "digits n = (if n < 10 then [digit_char n] else digits (n div 10) @ [digit_char (n mod 10)])"
  by pat_completeness auto
termination
  by (relation "measure id") auto

declare digits.simps [simp del]

definition number_to_string :: "int \<Rightarrow> jsstring" where
  "number_to_string i = (if i < 0 then ascii ''-'' @ digits (nat (- i)) else digits (nat i))"

text \<open>
  The Number values that \<open>parseInt\<close> and a product of such values can have: \<open>NaN\<close>,
  an infinity with its sign, or a double that is an integer, with its sign (\<open>True\<close> is
  negative, so that \<open>Finite True 0\<close> is \<open>-0\<close>) and its magnitude.
\<close>

datatype number = NaN | Infinity bool | Finite bool nat

text \<open>The number of binary digits of a natural number.\<close>

function bit_length :: "nat \<Rightarrow> nat" where
  "bit_length n = (if n = 0 then 0 else Suc (bit_length (n div 2)))"
  by pat_completeness auto
termination
  by (relation "measure id") auto

declare bit_length.simps [simp del]

text \<open>
  The Number value of a mathematical integer: the nearest integer with 53 significant
  binary digits, the one with an even significand when two are equally near, and an
  infinity from \<open>2^1024\<close> on.
\<close>

definition round_to_53_bits :: "nat \<Rightarrow> nat" where
  "round_to_53_bits m =
     (if bit_length m \<le> 53 then m
      else
        (let e = bit_length m - 53;
             q = m div 2 ^ e;
             r = m mod 2 ^ e;
             half = 2 ^ (e - 1)
         in (if half < r \<or> (r = half \<and> odd q) then q + 1 else q) * 2 ^ e))"

definition to_number :: "bool \<Rightarrow> nat \<Rightarrow> number" where
  "to_number negative m =
     (let r = round_to_53_bits m in if 2 ^ 1024 \<le> r then Infinity negative else Finite negative r)"

text \<open>The product \<open>x * y\<close> of two such Number values.\<close>

fun number_times :: "number \<Rightarrow> number \<Rightarrow> number" where
  "number_times NaN y = NaN"
| "number_times (Infinity a) NaN = NaN"
| "number_times (Finite a m) NaN = NaN"
| "number_times (Infinity a) (Infinity b) = Infinity (a \<noteq> b)"
| "number_times (Infinity a) (Finite b k) = (if k = 0 then NaN else Infinity (a \<noteq> b))"
| "number_times (Finite a m) (Infinity b) = (if m = 0 then NaN else Infinity (a \<noteq> b))"
| "number_times (Finite a m) (Finite b k) = to_number (a \<noteq> b) (m * k)"

text \<open>
  The global \<open>parseInt(string)\<close> with no radix: leading white space is skipped, a
  sign is read, a \<open>0x\<close> prefix selects radix 16, and the longest run of digits is
  converted to the Number value of the integer it denotes; an input with no digit
  gives \<open>NaN\<close>. (The language lets an implementation read the decimal digits after
  the twentieth significant one as zeros; as in V8, all digits are read here.)
\<close>

definition is_white_space :: "16 word \<Rightarrow> bool" where
  "is_white_space c =
     (c = 0x09 \<or> c = 0x0A \<or> c = 0x0B \<or> c = 0x0C \<or> c = 0x0D \<or> c = 0x20 \<or> c = 0xA0
      \<or> c = 0x1680 \<or> (0x2000 \<le> c \<and> c \<le> 0x200A) \<or> c = 0x2028 \<or> c = 0x2029
      \<or> c = 0x202F \<or> c = 0x205F \<or> c = 0x3000 \<or> c = 0xFEFF)"

definition digit_value :: "16 word \<Rightarrow> nat option" where
  "digit_value c =
     (if 0x30 \<le> c \<and> c \<le> 0x39 then Some (unat c - 48)
      else if 0x61 \<le> c \<and> c \<le> 0x7A then Some (unat c - 87)
      else if 0x41 \<le> c \<and> c \<le> 0x5A then Some (unat c - 55)
      else None)"

definition is_radix_digit :: "nat \<Rightarrow> 16 word \<Rightarrow> bool" where
  "is_radix_digit R c = (case digit_value c of None \<Rightarrow> False | Some d \<Rightarrow> d < R)"

definition radix_value :: "nat \<Rightarrow> jsstring \<Rightarrow> nat" where
  "radix_value R Z = foldl (\<lambda>a c. a * R + (case digit_value c of None \<Rightarrow> 0 | Some d \<Rightarrow> d)) 0 Z"

definition parseInt :: "jsstring \<Rightarrow> number" where
  "parseInt string =
     (let S = dropWhile is_white_space string;
          negative = startsWith S (ascii ''-'');
          S1 = (if startsWith S (ascii ''+'') \<or> startsWith S (ascii ''-'') then tl S else S);
          hex = (startsWith S1 (ascii ''0x'') \<or> startsWith S1 (ascii ''0X''));
          R = (if hex then 16 else 10);
          S2 = (if hex then drop 2 S1 else S1);
          Z = takeWhile (is_radix_digit R) S2
      in if Z = [] then NaN else to_number negative (radix_value R Z))"

subsection \<open>UTF-8 byte length of a string\<close>

text \<open>
  \<open>new Blob([s]).size\<close>: the string is read as a sequence of code points (a
  surrogate pair is one code point, a lone surrogate becomes U+FFFD) and encoded in
  UTF-8; the size is the number of bytes.
\<close>

definition is_high_surrogate :: "16 word \<Rightarrow> bool" where
  "is_high_surrogate c = (0xD800 \<le> c \<and> c \<le> 0xDBFF)"

definition is_low_surrogate :: "16 word \<Rightarrow> bool" where
  "is_low_surrogate c = (0xDC00 \<le> c \<and> c \<le> 0xDFFF)"

definition scalar_value :: "16 word \<Rightarrow> nat" where
  "scalar_value c = (if is_high_surrogate c \<or> is_low_surrogate c then 0xFFFD else unat c)"

fun code_points :: "jsstring \<Rightarrow> nat list" where
  "code_points [] = []"
| "code_points [c] = [scalar_value c]"
| "code_points (c # d # cs) =
     (if is_high_surrogate c \<and> is_low_surrogate d
      then (0x10000 + (unat c - 0xD800) * 0x400 + (unat d - 0xDC00)) # code_points cs
      else scalar_value c # code_points (d # cs))"

definition utf8_encode_code_point :: "nat \<Rightarrow> 8 word list" where
  "utf8_encode_code_point cp =
     (if cp < 0x80 then [of_nat cp]
      else if cp < 0x800 then [of_nat (0xC0 + cp div 0x40), of_nat (0x80 + cp mod 0x40)]
      else if cp < 0x10000 then
        [of_nat (0xE0 + cp div 0x1000), of_nat (0x80 + (cp div 0x40) mod 0x40),
         of_nat (0x80 + cp mod 0x40)]
      else
        [of_nat (0xF0 + cp div 0x40000), of_nat (0x80 + (cp div 0x1000) mod 0x40),
         of_nat (0x80 + (cp div 0x40) mod 0x40), of_nat (0x80 + cp mod 0x40)])"

definition utf8_encode :: "jsstring \<Rightarrow> 8 word list" where
  "utf8_encode s = concat (map utf8_encode_code_point (code_points s))"

definition Blob_size :: "jsstring \<Rightarrow> nat" where
  "Blob_size s = length (utf8_encode s)"

subsection \<open>JSON values and \<open>JSON.stringify\<close>\<close>

datatype json =
    JNull
  | JBool bool
  | JNum int
  | JStr jsstring
  | JArr "json list"
  | JObj "(jsstring \<times> json) list"

definition hex_digit :: "nat \<Rightarrow> 16 word" where
  "hex_digit d = (if d < 10 then of_nat (48 + d) else of_nat (87 + d))"

definition unicode_escape :: "16 word \<Rightarrow> jsstring" where
  "unicode_escape c =
     [0x5C, 0x75] @ [hex_digit (unat c div 4096), hex_digit ((unat c div 256) mod 16),
                      hex_digit ((unat c div 16) mod 16), hex_digit (unat c mod 16)]"

definition quote_unit :: "16 word \<Rightarrow> jsstring" where
  "quote_unit c =
     (if c = 0x08 then [0x5C, 0x62]
      else if c = 0x09 then [0x5C, 0x74]
      else if c = 0x0A then [0x5C, 0x6E]
      else if c = 0x0C then [0x5C, 0x66]
      else if c = 0x0D then [0x5C, 0x72]
      else if c = 0x22 then [0x5C, 0x22]
      else if c = 0x5C then [0x5C, 0x5C]
      else if c < 0x20 then unicode_escape c
      else [c])"

text \<open>
  The characters of a quoted string (the backslash is code unit 0x5C, the double quote
  0x22): a surrogate pair is copied, a lone surrogate is written as a four-digit
  escape (well-formed \<open>JSON.stringify\<close>).
\<close>

fun quote_chars :: "jsstring \<Rightarrow> jsstring" where
  "quote_chars [] = []"
| "quote_chars [c] =
     (if is_high_surrogate c \<or> is_low_surrogate c then unicode_escape c else quote_unit c)"
| "quote_chars (c # d # cs) =
     (if is_high_surrogate c \<and> is_low_surrogate d then c # d # quote_chars cs
      else (if is_high_surrogate c \<or> is_low_surrogate c then unicode_escape c else quote_unit c)
           @ quote_chars (d # cs))"

definition QuoteJSONString :: "jsstring \<Rightarrow> jsstring" where
  "QuoteJSONString s = [0x22] @ quote_chars s @ [0x22]"

fun join_comma :: "jsstring list \<Rightarrow> jsstring" where
  "join_comma [] = []"
| "join_comma [x] = x"
| "join_comma (x # y # ys) = x @ ascii '','' @ join_comma (y # ys)"

fun JSON_stringify :: "json \<Rightarrow> jsstring" where
  "JSON_stringify JNull = ascii ''null''"
| "JSON_stringify (JBool b) = (if b then ascii ''true'' else ascii ''false'')"
| "JSON_stringify (JNum n) = number_to_string n"
| "JSON_stringify (JStr s) = QuoteJSONString s"
| "JSON_stringify (JArr xs) = ascii ''['' @ join_comma (map JSON_stringify xs) @ ascii '']''"
| "JSON_stringify (JObj kvs) =
     ascii ''{'' @ join_comma (map (\<lambda>kv. QuoteJSONString (fst kv) @ ascii '':'' @ JSON_stringify (snd kv)) kvs)
     @ ascii ''}''"


section \<open>The directory client (PaynymDirectory.ts)\<close>

subsection \<open>Transport, storage and clock\<close>

text \<open>
  A thrown value or a rejected promise: an \<open>Error\<close> with its message, or any other
  value.
\<close>

datatype exn = Error jsstring | NonError

record request =
  url :: jsstring
  "method" :: jsstring
  headers :: "(jsstring \<times> jsstring) list"
  body :: jsstring

text \<open>
  The body of a response as the code sees it, a \<open>Record<string, any>\<close>: the object
  read through the interface the operation casts it to (\<open>result as T\<close>), and its
  \<open>message\<close> property (\<open>None\<close> when the property is absent).
\<close>

record 'a record_any =
  result_as :: 'a
  result_message :: "jsstring option"

text \<open>
  The response of the transport: \<open>json\<close> is the outcome of \<open>response.json()\<close>
  (\<open>Inl\<close> when the promise rejects), \<open>headers_get\<close> is \<open>response.headers.get\<close>.
\<close>

record 'a response =
  ok :: bool
  status :: int
  statusText :: jsstring
  json :: "exn + 'a record_any"
  headers_get :: "jsstring \<Rightarrow> jsstring option"

text \<open>
  The transport \<open>fetch\<close> is a collaborator: it answers a request, knowing the requests
  made before, with a response or a rejection.
\<close>

type_synonym 'a transport = "request list \<Rightarrow> request \<Rightarrow> exn + 'a response"

text \<open>
  What the client does to the outside, in order: a request handed to the transport, or
  a delay handed to \<open>setTimeout\<close> and awaited.
\<close>

datatype event = Fetch request | Timeout number

fun requests :: "event list \<Rightarrow> request list" where
  "requests [] = []"
| "requests (Fetch r # es) = r # requests es"
| "requests (Timeout t # es) = requests es"

text \<open>
  The world the client acts on: the key-value store (\<open>AsyncStorage\<close>), the events so
  far, and the clock: \<open>clock w n\<close> is what the \<open>n\<close>-th call of \<open>Date.now()\<close>
  returns. The store is a list of keys with their values; its four operations always
  succeed here, so the \<open>catch\<close> blocks that log a failing store and go on are not
  modelled.
\<close>

record world =
  storage :: "(jsstring \<times> jsstring) list"
  events :: "event list"
  clock :: "nat \<Rightarrow> int"
  clock_reads :: nat

definition fetch :: "'a transport \<Rightarrow> request \<Rightarrow> world \<Rightarrow> (exn + 'a response) \<times> world" where
  "fetch tr req w = (tr (requests (events w)) req, w\<lparr>events := events w @ [Fetch req]\<rparr>)"

definition setTimeout :: "number \<Rightarrow> world \<Rightarrow> world" where
  "setTimeout waitTime w = w\<lparr>events := events w @ [Timeout waitTime]\<rparr>"

definition Date_now :: "world \<Rightarrow> int \<times> world" where
  "Date_now w = (clock w (clock_reads w), w\<lparr>clock_reads := Suc (clock_reads w)\<rparr>)"

definition getItem :: "jsstring \<Rightarrow> world \<Rightarrow> jsstring option" where
  "getItem key w = map_of (storage w) key"

definition setItem :: "jsstring \<Rightarrow> jsstring \<Rightarrow> world \<Rightarrow> world" where
  "setItem key v w = w\<lparr>storage := AList.update key v (storage w)\<rparr>"

definition removeItem :: "jsstring \<Rightarrow> world \<Rightarrow> world" where
  "removeItem key w = w\<lparr>storage := AList.delete key (storage w)\<rparr>"

definition getAllKeys :: "world \<Rightarrow> jsstring list" where
  "getAllKeys w = map fst (storage w)"

subsection \<open>Constants\<close>

definition PAYNYM_API_BASE :: jsstring where
  "PAYNYM_API_BASE = ascii ''https://paynym.rs/api/v1''"

definition CACHE_DURATION :: int where
  "CACHE_DURATION = 24 * 60 * 60 * 1000"

definition STORAGE_KEY_PREFIX :: jsstring where
  "STORAGE_KEY_PREFIX = ascii ''paynym_dir_''"

subsection \<open>The POST request\<close>

text \<open>
  The headers object: the two computed headers, then the additional headers spread
  over them (a later key replaces the value of an earlier one).
\<close>

definition request_headers :: "jsstring \<Rightarrow> (jsstring \<times> jsstring) list \<Rightarrow> (jsstring \<times> jsstring) list" where
  "request_headers bodyString additionalHeaders =
     fold (\<lambda>kv hs. AList.update (fst kv) (snd kv) hs) additionalHeaders
       [(ascii ''Content-Type'', ascii ''application/json; charset=UTF-8''),
        (ascii ''Content-Length'', number_to_string (int (Blob_size bodyString)))]"

definition post_request :: "jsstring \<Rightarrow> json \<Rightarrow> (jsstring \<times> jsstring) list \<Rightarrow> request" where
  "post_request endpoint body_obj additionalHeaders =
     (let bodyString = JSON_stringify body_obj in
      \<lparr>url = PAYNYM_API_BASE @ (if startsWith endpoint (ascii ''/'') then endpoint
                                 else ascii ''/'' @ endpoint),
       method = ascii ''POST'',
       headers = request_headers bodyString additionalHeaders,
       body = bodyString\<rparr>)"

definition http_error :: "'a response \<Rightarrow> exn" where
  "http_error r = Error (ascii ''HTTP '' @ number_to_string (status r) @ ascii '': '' @ statusText r)"

text \<open>
  \<open>retryAfter ? parseInt(retryAfter) * 1000 : 5000\<close>: an absent header and an empty
  one give the default.
\<close>

definition retry_wait :: "'a response \<Rightarrow> number" where
  "retry_wait r =
     (case headers_get r (ascii ''Retry-After'') of
        None \<Rightarrow> Finite False 5000
      | Some retryAfter \<Rightarrow>
          if retryAfter = [] then Finite False 5000
          else number_times (parseInt retryAfter) (Finite False 1000))"

text \<open>
  \<open>_post\<close>: \<open>Inl\<close> is the error the method throws, \<open>Inr\<close> the pair of the parsed
  body and the status.
\<close>

definition post :: "'a transport \<Rightarrow> jsstring \<Rightarrow> json \<Rightarrow> (jsstring \<times> jsstring) list \<Rightarrow> world
    \<Rightarrow> (exn + 'a record_any \<times> int) \<times> world" where
  "post tr endpoint body_obj additionalHeaders w =
     (let req = post_request endpoint body_obj additionalHeaders in
      case fetch tr req w of
        (Inl e, w1) \<Rightarrow> (Inl e, w1)
      | (Inr response, w1) \<Rightarrow>
          if status response = 429 then
            (let w2 = setTimeout (retry_wait response) w1 in
             case fetch tr req w2 of
               (Inl e, w3) \<Rightarrow> (Inl e, w3)
             | (Inr retryResponse, w3) \<Rightarrow>
                 if \<not> ok retryResponse then (Inl (http_error retryResponse), w3)
                 else (case json retryResponse of
                         Inl e \<Rightarrow> (Inl e, w3)
                       | Inr data \<Rightarrow> (Inr (data, status retryResponse), w3)))
          else if \<not> ok response then (Inl (http_error response), w1)
          else (case json response of
                  Inl e \<Rightarrow> (Inl e, w1)
                | Inr data \<Rightarrow> (Inr (data, status response), w1)))"

subsection \<open>The operations\<close>

record 'a PaynymResponse =
  "value" :: "'a option"
  statusCode :: int
  message :: jsstring

text \<open>\<open>result.message || 'Unknown error'\<close>: an absent or empty message is replaced.\<close>

definition message_or_unknown :: "'a record_any \<Rightarrow> jsstring" where
  "message_or_unknown result =
     (case result_message result of
        None \<Rightarrow> ascii ''Unknown error''
      | Some m \<Rightarrow> if m = [] then ascii ''Unknown error'' else m)"

text \<open>The \<open>catch\<close> block shared by the operations.\<close>

definition caught :: "exn \<Rightarrow> 'a PaynymResponse" where
  "caught error =
     \<lparr>value = None, statusCode = - 1,
      message = (case error of Error m \<Rightarrow> m | NonError \<Rightarrow> ascii ''Unknown error'')\<rparr>"

definition create :: "'a transport \<Rightarrow> jsstring \<Rightarrow> world \<Rightarrow> 'a PaynymResponse \<times> world" where
  "create tr code w =
     (case post tr (ascii ''/create'') (JObj [(ascii ''code'', JStr code)]) [] w of
        (Inr (result, sc), w') \<Rightarrow>
          ((if sc = 201 then
              \<lparr>value = Some (result_as result), statusCode = sc,
               message = ascii ''PayNym created successfully''\<rparr>
            else if sc = 200 then
              \<lparr>value = Some (result_as result), statusCode = sc,
               message = ascii ''PayNym already exists''\<rparr>
            else if sc = 400 then
              \<lparr>value = None, statusCode = sc,
               message = ascii ''Bad request: Invalid payment code format''\<rparr>
            else \<lparr>value = None, statusCode = sc, message = message_or_unknown result\<rparr>), w')
      | (Inl error, w') \<Rightarrow> (caught error, w'))"

definition token :: "'a transport \<Rightarrow> jsstring \<Rightarrow> world \<Rightarrow> 'a PaynymResponse \<times> world" where
  "token tr code w =
     (case post tr (ascii ''/token'') (JObj [(ascii ''code'', JStr code)]) [] w of
        (Inr (result, sc), w') \<Rightarrow>
          ((if sc = 200 then
              \<lparr>value = Some (result_as result), statusCode = sc,
               message = ascii ''Token was successfully updated''\<rparr>
            else if sc = 404 then
              \<lparr>value = None, statusCode = sc,
               message = ascii ''Payment code was not found in database''\<rparr>
            else if sc = 400 then
              \<lparr>value = None, statusCode = sc,
               message = ascii ''Bad request: Invalid payment code format''\<rparr>
            else \<lparr>value = None, statusCode = sc, message = message_or_unknown result\<rparr>), w')
      | (Inl error, w') \<Rightarrow> (caught error, w'))"

definition nym :: "'a transport \<Rightarrow> jsstring \<Rightarrow> bool \<Rightarrow> world \<Rightarrow> 'a PaynymResponse \<times> world" where
  "nym tr nym_id compact w =
     (let requestBody = JObj ([(ascii ''nym'', JStr nym_id)]
                              @ (if compact then [(ascii ''compact'', JBool True)] else [])) in
      case post tr (ascii ''/nym'') requestBody [] w of
        (Inr (result, sc), w') \<Rightarrow>
          ((if sc = 200 then
              \<lparr>value = Some (result_as result), statusCode = sc,
               message = ascii ''Nym found and returned''\<rparr>
            else if sc = 404 then
              \<lparr>value = None, statusCode = sc, message = ascii ''Nym not found''\<rparr>
            else if sc = 400 then
              \<lparr>value = None, statusCode = sc,
               message = ascii ''Bad request: Invalid nym identifier''\<rparr>
            else \<lparr>value = None, statusCode = sc, message = message_or_unknown result\<rparr>), w')
      | (Inl error, w') \<Rightarrow> (caught error, w'))"

definition claim :: "'a transport \<Rightarrow> jsstring \<Rightarrow> jsstring \<Rightarrow> world \<Rightarrow> 'a PaynymResponse \<times> world" where
  "claim tr tok signature w =
     (case post tr (ascii ''/claim'') (JObj [(ascii ''signature'', JStr signature)])
             [(ascii ''auth-token'', tok)] w of
        (Inr (result, sc), w') \<Rightarrow>
          ((if sc = 200 then
              \<lparr>value = Some (result_as result), statusCode = sc,
               message = ascii ''Payment code successfully claimed''\<rparr>
            else if sc = 400 then
              \<lparr>value = None, statusCode = sc,
               message = ascii ''Bad request: Missing signature or already claimed''\<rparr>
            else if sc = 401 then
              \<lparr>value = None, statusCode = sc,
               message = ascii ''Unauthorized: Invalid token, signature, or unclaimed payment code''\<rparr>
            else \<lparr>value = None, statusCode = sc, message = message_or_unknown result\<rparr>), w')
      | (Inl error, w') \<Rightarrow> (caught error, w'))"

definition follow :: "'a transport \<Rightarrow> jsstring \<Rightarrow> jsstring \<Rightarrow> jsstring \<Rightarrow> world
    \<Rightarrow> 'a PaynymResponse \<times> world" where
  "follow tr tok signature target w =
     (case post tr (ascii ''/follow'')
             (JObj [(ascii ''target'', JStr target), (ascii ''signature'', JStr signature)])
             [(ascii ''auth-token'', tok)] w of
        (Inr (result, sc), w') \<Rightarrow>
          ((if sc = 200 then
              \<lparr>value = Some (result_as result), statusCode = sc,
               message = ascii ''Added to followers''\<rparr>
            else if sc = 404 then
              \<lparr>value = None, statusCode = sc, message = ascii ''Target nym not found''\<rparr>
            else if sc = 400 then
              \<lparr>value = None, statusCode = sc,
               message = ascii ''Bad request: Missing fields or cannot follow yourself''\<rparr>
            else if sc = 401 then
              \<lparr>value = None, statusCode = sc,
               message = ascii ''Unauthorized: Invalid token, signature, or unclaimed payment code''\<rparr>
            else \<lparr>value = None, statusCode = sc, message = message_or_unknown result\<rparr>), w')
      | (Inl error, w') \<Rightarrow> (caught error, w'))"

definition unfollow :: "'a transport \<Rightarrow> jsstring \<Rightarrow> jsstring \<Rightarrow> jsstring \<Rightarrow> world
    \<Rightarrow> 'a PaynymResponse \<times> world" where
  "unfollow tr tok signature target w =
     (case post tr (ascii ''/unfollow'')
             (JObj [(ascii ''target'', JStr target), (ascii ''signature'', JStr signature)])
             [(ascii ''auth-token'', tok)] w of
        (Inr (result, sc), w') \<Rightarrow>
          ((if sc = 200 then
              \<lparr>value = Some (result_as result), statusCode = sc,
               message = ascii ''Unfollowed successfully''\<rparr>
            else if sc = 404 then
              \<lparr>value = None, statusCode = sc, message = ascii ''Target nym not found''\<rparr>
            else if sc = 400 then
              \<lparr>value = None, statusCode = sc,
               message = ascii ''Bad request: Not currently following this nym''\<rparr>
            else if sc = 401 then
              \<lparr>value = None, statusCode = sc,
               message = ascii ''Unauthorized: Invalid token, signature, or unclaimed payment code''\<rparr>
            else \<lparr>value = None, statusCode = sc, message = message_or_unknown result\<rparr>), w')
      | (Inl error, w') \<Rightarrow> (caught error, w'))"


subsection \<open>Accounts and the local cache\<close>

text \<open>
  The account returned by \<open>/nym\<close> (interface \<open>PaynymAccount\<close>). The cast of the
  response body is unchecked, so a property the directory left out is \<open>None\<close>.
\<close>

record code_entry =
  claimed :: bool
  segwit :: "bool option"
  code :: jsstring

record nym_ref =
  nymId :: jsstring

record PaynymAccount =
  codes :: "code_entry list option"
  followers :: "nym_ref list option"
  following :: "nym_ref list option"
  nymID :: "jsstring option"
  nymName :: "jsstring option"

record PaynymInfo =
  code :: jsstring
  nymID :: "jsstring option"
  nymName :: "jsstring option"
  avatar :: "jsstring option"
  followers :: "int option"
  following :: "int option"
  createdAt :: "jsstring option"
  cached_at :: "int option"

text \<open>
  The object \<open>JSON.stringify\<close> sees for a \<open>PaynymInfo\<close>: an undefined property is
  left out.
\<close>

definition opt_field :: "string \<Rightarrow> 'a option \<Rightarrow> ('a \<Rightarrow> json) \<Rightarrow> (jsstring \<times> json) list" where
  "opt_field k v f = (case v of None \<Rightarrow> [] | Some x \<Rightarrow> [(ascii k, f x)])"

definition PaynymInfo_json :: "PaynymInfo \<Rightarrow> json" where
  "PaynymInfo_json i =
     JObj ([(ascii ''code'', JStr (PaynymInfo.code i))]
           @ opt_field ''nymID'' (PaynymInfo.nymID i) JStr
           @ opt_field ''nymName'' (PaynymInfo.nymName i) JStr
           @ opt_field ''avatar'' (avatar i) JStr
           @ opt_field ''followers'' (PaynymInfo.followers i) JNum
           @ opt_field ''following'' (PaynymInfo.following i) JNum
           @ opt_field ''createdAt'' (createdAt i) JStr
           @ opt_field ''cached_at'' (cached_at i) JNum)"

text \<open>
  \<open>getPaynymInfo\<close>: reading \<open>length\<close> of an absent \<open>followers\<close> or \<open>following\<close>
  throws, and the \<open>catch\<close> block returns null.
\<close>

definition getPaynymInfo :: "PaynymAccount transport \<Rightarrow> jsstring \<Rightarrow> world
    \<Rightarrow> PaynymInfo option \<times> world" where
  "getPaynymInfo tr paymentCode w =
     (case nym tr paymentCode True w of
        (response, w1) \<Rightarrow>
          (case value response of
             None \<Rightarrow> (None, w1)
           | Some account \<Rightarrow>
               if statusCode response = 200 then
                 (case PaynymAccount.followers account of
                    None \<Rightarrow> (None, w1)
                  | Some fs \<Rightarrow>
                      (case PaynymAccount.following account of
                         None \<Rightarrow> (None, w1)
                       | Some gs \<Rightarrow>
                           (case Date_now w1 of
                              (now, w2) \<Rightarrow>
                                (Some \<lparr>PaynymInfo.code = paymentCode,
                                       PaynymInfo.nymID = PaynymAccount.nymID account,
                                       PaynymInfo.nymName = PaynymAccount.nymName account,
                                       avatar = None,
                                       PaynymInfo.followers = Some (int (length fs)),
                                       PaynymInfo.following = Some (int (length gs)),
                                       createdAt = None,
                                       cached_at = Some now\<rparr>, w2))))
               else (None, w1)))"

text \<open>
  \<open>JSON.parse\<close>, as far as \<open>getCachedPaynymInfo\<close> uses it, is a parameter:
  \<open>Inl\<close> is the SyntaxError it throws, \<open>Inr None\<close> a parsed value that is not an
  object (null, for one), \<open>Inr (Some i)\<close> the parsed \<open>PaynymInfo\<close>.
\<close>

type_synonym parser = "jsstring \<Rightarrow> exn + PaynymInfo option"

definition getCachedPaynymInfo :: "parser \<Rightarrow> jsstring \<Rightarrow> world \<Rightarrow> PaynymInfo option" where
  "getCachedPaynymInfo JSON_parse paymentCode w =
     (let key = STORAGE_KEY_PREFIX @ paymentCode in
      case getItem key w of
        None \<Rightarrow> None
      | Some cached \<Rightarrow>
          if cached = [] then None
          else (case JSON_parse cached of Inl e \<Rightarrow> None | Inr v \<Rightarrow> v))"

definition cachePaynymInfo :: "jsstring \<Rightarrow> PaynymInfo \<Rightarrow> world \<Rightarrow> world" where
  "cachePaynymInfo paymentCode paynymInfo w =
     (let key = STORAGE_KEY_PREFIX @ paymentCode in
      setItem key (JSON_stringify (PaynymInfo_json paynymInfo)) w)"

text \<open>
  The cache check of \<open>getPaynymInfoCached\<close>: the entry, if it is to be returned. An
  entry with no \<open>cached_at\<close> has age \<open>NaN\<close>, which is not below the limit.
  The method has no error result: \<open>getCachedPaynymInfo\<close>, \<open>getPaynymInfo\<close> and
  \<open>cachePaynymInfo\<close> each catch what their body throws.
\<close>

definition cache_check :: "parser \<Rightarrow> jsstring \<Rightarrow> bool \<Rightarrow> world \<Rightarrow> PaynymInfo option \<times> world" where
  "cache_check JSON_parse paymentCode forceRefresh w =
     (if \<not> forceRefresh then
        (case getCachedPaynymInfo JSON_parse paymentCode w of
           None \<Rightarrow> (None, w)
         | Some cached \<Rightarrow>
             (case Date_now w of
                (now, w1) \<Rightarrow>
                  (case cached_at cached of
                     None \<Rightarrow> (None, w1)
                   | Some t \<Rightarrow>
                       if now - t < CACHE_DURATION then (Some cached, w1) else (None, w1))))
      else (None, w))"

definition getPaynymInfoCached :: "parser \<Rightarrow> PaynymAccount transport \<Rightarrow> jsstring \<Rightarrow> bool
    \<Rightarrow> world \<Rightarrow> PaynymInfo option \<times> world" where
  "getPaynymInfoCached JSON_parse tr paymentCode forceRefresh w =
     (case cache_check JSON_parse paymentCode forceRefresh w of
        (Some cached, w1) \<Rightarrow> (Some cached, w1)
      | (None, w1) \<Rightarrow>
          (case getPaynymInfo tr paymentCode w1 of
             (None, w2) \<Rightarrow> (None, w2)
           | (Some paynymInfo, w2) \<Rightarrow>
               (Some paynymInfo, cachePaynymInfo paymentCode paynymInfo w2)))"

definition clearCache :: "world \<Rightarrow> world" where
  "clearCache w =
     (let keys = getAllKeys w;
          paynymKeys = filter (\<lambda>key. startsWith key STORAGE_KEY_PREFIX) keys
      in fold removeItem paynymKeys w)"

text \<open>
  What either attempt of \<open>_post\<close> makes of the transport's answer: the error thrown
  for a response that is not ok, or the parsed body with the status.
\<close>

definition settle :: "(exn + 'a response) \<Rightarrow> exn + 'a record_any \<times> int" where
  "settle outcome =
     (case outcome of
        Inl e \<Rightarrow> Inl e
      | Inr r \<Rightarrow> if \<not> ok r then Inl (http_error r)
                else (case json r of Inl e \<Rightarrow> Inl e | Inr data \<Rightarrow> Inr (data, status r)))"

subsection \<open>The test doubles of paynym-directory.test.ts\<close>

text \<open>
  \<open>mockResponse(status, data, headers)\<close>: a response is ok when its status is in
  200..299, and \<open>headers.get\<close> returns null for a header that is absent or empty.
\<close>

definition mockResponse :: "int \<Rightarrow> 'a record_any \<Rightarrow> (jsstring \<times> jsstring) list \<Rightarrow> 'a response" where
  "mockResponse st data hs =
     \<lparr>ok = (200 \<le> st \<and> st < 300), status = st,
      statusText = (if st = 200 then ascii ''OK'' else ascii ''Error''),
      json = Inr data,
      headers_get = (\<lambda>key. case map_of hs key of
                              None \<Rightarrow> None
                            | Some v \<Rightarrow> if v = [] then None else Some v)\<rparr>"

text \<open>
  \<open>mockFetch\<close> with its answers queued by \<open>mockResolvedValueOnce\<close> and
  \<open>mockRejectedValueOnce\<close>: the \<open>n\<close>-th call gets the \<open>n\<close>-th outcome of the
  list. No test and no example below calls it more often; it rejects then.
\<close>

definition mockFetch :: "(exn + 'a response) list \<Rightarrow> 'a transport" where
  "mockFetch outcomes log req =
     (if length log < length outcomes then outcomes ! length log else Inl NonError)"

definition empty_world :: world where
  "empty_world = \<lparr>storage = [], events = [], clock = (\<lambda>n. 0), clock_reads = 0\<rparr>"

section \<open>The wallet (hd-segwit-bech32-wallet.ts)\<close>

subsection \<open>Collaborators\<close>

text \<open>
  The wallet's state. The members that the class inherits from
  \<open>AbstractHDElectrumWallet\<close> are not part of the sources at hand: the switch behind
  \<open>isBIP47Enabled()\<close> and the two payment-code lists are fields.
\<close>

record wallet =
  secret :: jsstring
  enable_BIP47 :: bool
  send_payment_codes :: "jsstring list"
  receive_payment_codes :: "jsstring list"

record notification_node =
  privateKey :: "8 word list option"

text \<open>
  The libraries the wallet calls, as parameters: the payment code and the notification
  node derived from the seed (\<open>getBIP47PaymentCode\<close>,
  \<open>getBIP47FromSeed().getNotificationNode()\<close>), the key check of
  \<open>ECPair.fromPrivateKey\<close> (\<open>Some e\<close> when it throws \<open>e\<close>), and
  \<open>bitcoinMessage.sign(message, privateKey, compressed)\<close>, which returns the raw
  signature.
\<close>

record crypto =
  paymentCodeFromSeed :: "jsstring \<Rightarrow> exn + jsstring"
  notificationNodeFromSeed :: "jsstring \<Rightarrow> exn + notification_node option"
  ECPair_fromPrivateKey :: "8 word list \<Rightarrow> exn option"
  bitcoinMessage_sign :: "jsstring \<Rightarrow> 8 word list \<Rightarrow> bool \<Rightarrow> exn + 8 word list"

subsection \<open>Base64\<close>

text \<open>\<open>Buffer.prototype.toString('base64')\<close>: three bytes become four characters.\<close>

definition base64_alphabet :: jsstring where
  "base64_alphabet = ascii ''ABCDEFGHIJKLMNOPQRSTUVWXYZabcdefghijklmnopqrstuvwxyz0123456789+/''"

definition base64_char :: "nat \<Rightarrow> 16 word" where
  "base64_char n = base64_alphabet ! (n mod 64)"

fun toString_base64 :: "8 word list \<Rightarrow> jsstring" where
  "toString_base64 [] = []"
| "toString_base64 [a] =
     (let n = unat a * 65536
      in [base64_char (n div 262144), base64_char (n div 4096)] @ ascii ''=='')"
| "toString_base64 [a, b] =
     (let n = unat a * 65536 + unat b * 256
      in [base64_char (n div 262144), base64_char (n div 4096), base64_char (n div 64)]
         @ ascii ''='')"
| "toString_base64 (a # b # c # rest) =
     (let n = unat a * 65536 + unat b * 256 + unat c
      in [base64_char (n div 262144), base64_char (n div 4096), base64_char (n div 64),
          base64_char n] @ toString_base64 rest)"

subsection \<open>The claim signature\<close>

definition allowBIP47 :: "wallet \<Rightarrow> bool" where
  "allowBIP47 w = True"

definition isBIP47Enabled :: "wallet \<Rightarrow> bool" where
  "isBIP47Enabled w = enable_BIP47 w"

definition getBIP47PaymentCode :: "crypto \<Rightarrow> wallet \<Rightarrow> exn + jsstring" where
  "getBIP47PaymentCode lib w = paymentCodeFromSeed lib (secret w)"

text \<open>
  \<open>generatePaynymClaimSignature\<close>: \<open>Inl\<close> is the error the method throws, \<open>Inr\<close>
  the signature in base64.
\<close>

definition generatePaynymClaimSignature :: "crypto \<Rightarrow> wallet \<Rightarrow> jsstring \<Rightarrow> exn + jsstring" where
  "generatePaynymClaimSignature lib w tok =
     (if \<not> allowBIP47 w \<or> \<not> isBIP47Enabled w then
        Inl (Error (ascii ''BIP47 is not enabled for this wallet''))
      else
        (case getBIP47PaymentCode lib w of
           Inl e \<Rightarrow> Inl e
         | Inr paymentCode \<Rightarrow>
             if paymentCode = [] then Inl (Error (ascii ''No payment code available''))
             else
               (case notificationNodeFromSeed lib (secret w) of
                  Inl e \<Rightarrow> Inl e
                | Inr None \<Rightarrow> Inl (Error (ascii ''Failed to derive notification private key''))
                | Inr (Some notificationNode) \<Rightarrow>
                    (case privateKey notificationNode of
                       None \<Rightarrow> Inl (Error (ascii ''Failed to derive notification private key''))
                     | Some key \<Rightarrow>
                         (case ECPair_fromPrivateKey lib key of
                            Some e \<Rightarrow> Inl e
                          | None \<Rightarrow>
                              (case bitcoinMessage_sign lib tok key True of
                                 Inl e \<Rightarrow> Inl e
                               | Inr signature \<Rightarrow> Inr (toString_base64 signature)))))))"

subsection \<open>The contact lists\<close>

text \<open>
  Modelled from the spec: \<open>addToSenderList\<close> (\<open>addBIP47Receiver\<close> of
  abstract-hd-electrum-wallet.ts, which is not in the sources). A code already in the
  sender list is not added again; the receiver list plays no part.
\<close>

definition addBIP47Receiver :: "wallet \<Rightarrow> jsstring \<Rightarrow> wallet" where
  "addBIP47Receiver w paymentCode =
     (if paymentCode \<in> set (send_payment_codes w) then w
      else w\<lparr>send_payment_codes := send_payment_codes w @ [paymentCode]\<rparr>)"

text \<open>
  Modelled from the spec: the code selected for a followed nym, the first one flagged
  claimed or else the first one of the list.
\<close>

definition select_code :: "code_entry list \<Rightarrow> jsstring option" where
  "select_code cs =
     (case find claimed cs of
        Some e \<Rightarrow> Some (code_entry.code e)
      | None \<Rightarrow> (case cs of [] \<Rightarrow> None | e # rest \<Rightarrow> Some (code_entry.code e)))"

text \<open>
  Modelled from the spec: one step of \<open>reconcileFromDirectory\<close>
  (\<open>fetchBIP47ReceiverPaymentCodesViaPaynym\<close> of abstract-hd-electrum-wallet.ts, which
  is not in the sources), for one followed nym: its account is looked up, one code is
  selected and added to the sender list unless it is there. A nym that cannot be
  resolved, or has no code, adds nothing.
\<close>

definition reconcile_nym :: "PaynymAccount transport \<Rightarrow> nym_ref \<Rightarrow> wallet \<times> world \<Rightarrow> wallet \<times> world" where
  "reconcile_nym tr followed st =
     (case st of
        (w, world) \<Rightarrow>
          (case nym tr (nymId followed) False world of
             (response, world') \<Rightarrow>
               (case value response of
                  None \<Rightarrow> (w, world')
                | Some account \<Rightarrow>
                    (case codes account of
                       None \<Rightarrow> (w, world')
                     | Some cs \<Rightarrow>
                         (case select_code cs of
                            None \<Rightarrow> (w, world')
                          | Some c \<Rightarrow> (addBIP47Receiver w c, world'))))))"

text \<open>
  Modelled from the spec: \<open>reconcileFromDirectory\<close>. It changes nothing when the
  feature is disabled, when the directory returns no account for the wallet's own
  payment code, or when the account has no \<open>following\<close>.
\<close>

definition fetchBIP47ReceiverPaymentCodesViaPaynym ::
    "crypto \<Rightarrow> PaynymAccount transport \<Rightarrow> wallet \<Rightarrow> world \<Rightarrow> wallet \<times> world" where
  "fetchBIP47ReceiverPaymentCodesViaPaynym lib tr w world =
     (if \<not> allowBIP47 w \<or> \<not> isBIP47Enabled w then (w, world)
      else
        (case getBIP47PaymentCode lib w of
           Inl e \<Rightarrow> (w, world)
         | Inr paymentCode \<Rightarrow>
             (case nym tr paymentCode False world of
                (response, world') \<Rightarrow>
                  (case value response of
                     None \<Rightarrow> (w, world')
                   | Some account \<Rightarrow>
                       (case PaynymAccount.following account of
                          None \<Rightarrow> (w, world')
                        | Some followed \<Rightarrow> fold (reconcile_nym tr) followed (w, world'))))))"

section \<open>Properties\<close>

subsection \<open>Vocabulary of the statements\<close>


text \<open>
  The six operations of the directory client with their arguments, so that a statement
  can speak of every operation: the endpoint, body and additional headers each one
  passes to \<open>_post\<close>, the request that results, and the call itself.
\<close>

datatype operation =
    Create jsstring
  | Token jsstring
  | Nym jsstring bool
  | Claim jsstring jsstring
  | Follow jsstring jsstring jsstring
  | Unfollow jsstring jsstring jsstring

fun op_endpoint :: "operation \<Rightarrow> jsstring" where
  "op_endpoint (Create c) = ascii ''/create''"
| "op_endpoint (Token c) = ascii ''/token''"
| "op_endpoint (Nym n compact) = ascii ''/nym''"
| "op_endpoint (Claim t s) = ascii ''/claim''"
| "op_endpoint (Follow t s target) = ascii ''/follow''"
| "op_endpoint (Unfollow t s target) = ascii ''/unfollow''"

fun op_body :: "operation \<Rightarrow> json" where
  "op_body (Create c) = JObj [(ascii ''code'', JStr c)]"
| "op_body (Token c) = JObj [(ascii ''code'', JStr c)]"
| "op_body (Nym n compact) =
     JObj ([(ascii ''nym'', JStr n)] @ (if compact then [(ascii ''compact'', JBool True)] else []))"
| "op_body (Claim t s) = JObj [(ascii ''signature'', JStr s)]"
| "op_body (Follow t s target) =
     JObj [(ascii ''target'', JStr target), (ascii ''signature'', JStr s)]"
| "op_body (Unfollow t s target) =
     JObj [(ascii ''target'', JStr target), (ascii ''signature'', JStr s)]"

fun op_headers :: "operation \<Rightarrow> (jsstring \<times> jsstring) list" where
  "op_headers (Create c) = []"
| "op_headers (Token c) = []"
| "op_headers (Nym n compact) = []"
| "op_headers (Claim t s) = [(ascii ''auth-token'', t)]"
| "op_headers (Follow t s target) = [(ascii ''auth-token'', t)]"
| "op_headers (Unfollow t s target) = [(ascii ''auth-token'', t)]"

definition op_request :: "operation \<Rightarrow> request" where
  "op_request op = post_request (op_endpoint op) (op_body op) (op_headers op)"

fun perform :: "'a transport \<Rightarrow> operation \<Rightarrow> world \<Rightarrow> 'a PaynymResponse \<times> world" where
  "perform tr (Create c) w = create tr c w"
| "perform tr (Token c) w = token tr c w"
| "perform tr (Nym n compact) w = nym tr n compact w"
| "perform tr (Claim t s) w = claim tr t s w"
| "perform tr (Follow t s target) w = follow tr t s target w"
| "perform tr (Unfollow t s target) w = unfollow tr t s target w"

text \<open>
  A cache entry that \<open>getPaynymInfoCached\<close> may return: it parses, and its age at the
  next reading of the clock is below the limit.
\<close>

definition fresh_entry :: "parser \<Rightarrow> jsstring \<Rightarrow> world \<Rightarrow> PaynymInfo \<Rightarrow> bool" where
  "fresh_entry JSON_parse paymentCode w cached =
     (getCachedPaynymInfo JSON_parse paymentCode w = Some cached
      \<and> (case cached_at cached of
            None \<Rightarrow> False
          | Some t \<Rightarrow> clock w (clock_reads w) - t < CACHE_DURATION))"

text \<open>
  A wallet that passes every check of \<open>generatePaynymClaimSignature\<close> with the
  notification key \<open>key\<close>.
\<close>

definition ready_to_sign :: "crypto \<Rightarrow> wallet \<Rightarrow> 8 word list \<Rightarrow> bool" where
  "ready_to_sign lib w key =
     (isBIP47Enabled w
      \<and> (case getBIP47PaymentCode lib w of Inl e \<Rightarrow> False | Inr paymentCode \<Rightarrow> paymentCode \<noteq> [])
      \<and> (case notificationNodeFromSeed lib (secret w) of
            Inr (Some notificationNode) \<Rightarrow> privateKey notificationNode = Some key
          | _ \<Rightarrow> False)
      \<and> ECPair_fromPrivateKey lib key = None)"

text \<open>
  What a wallet gained over an earlier state of itself: new codes at the end of the
  sender list, each once and none of them there before, and the same receiver list.
\<close>

definition gained :: "wallet \<Rightarrow> wallet \<Rightarrow> jsstring list \<Rightarrow> bool" where
  "gained w0 w new =
     (send_payment_codes w = send_payment_codes w0 @ new \<and> distinct new
      \<and> set new \<inter> set (send_payment_codes w0) = {}
      \<and> receive_payment_codes w = receive_payment_codes w0)"

text \<open>
  The code that reconciliation selects for a followed nym when the lookup of a name is
  answered by \<open>answer\<close>: none when the lookup gives no account, or an account without
  codes.
\<close>

definition selected :: "(jsstring \<Rightarrow> PaynymAccount option) \<Rightarrow> nym_ref \<Rightarrow> jsstring option" where
  "selected answer followed =
     (case answer (nymId followed) of
        None \<Rightarrow> None
      | Some account \<Rightarrow> (case codes account of None \<Rightarrow> None | Some cs \<Rightarrow> select_code cs))"

subsection \<open>Test data\<close>

text \<open>The responses and wallets of the unit tests, for the examples below.\<close>

definition no_body :: "unit record_any" where
  "no_body = \<lparr>result_as = (), result_message = None\<rparr>"

definition not_found_body :: "unit record_any" where
  "not_found_body = \<lparr>result_as = (), result_message = Some (ascii ''Not found'')\<rparr>"






definition accented_nym :: jsstring where
  "accented_nym = ascii ''PM8T'' @ [0xE9, 0xE8, 0xEA]"

definition account_body :: "PaynymAccount record_any" where
  "account_body =
     \<lparr>result_as =
        \<lparr>codes = Some [\<lparr>claimed = True, segwit = Some False, code = ascii ''PM8Ttest''\<rparr>],
         PaynymAccount.followers = Some [], PaynymAccount.following = Some [],
         PaynymAccount.nymID = Some (ascii ''nym123''),
         PaynymAccount.nymName = Some (ascii ''+cached'')\<rparr>,
      result_message = None\<rparr>"

definition account_found :: "PaynymAccount transport" where
  "account_found = mockFetch [Inr (mockResponse 200 account_body [])]"

definition account_missing :: "PaynymAccount transport" where
  "account_missing =
     mockFetch [Inr (mockResponse 404
                       \<lparr>result_as = \<lparr>codes = None, PaynymAccount.followers = None,
                                     PaynymAccount.following = None, PaynymAccount.nymID = None,
                                     PaynymAccount.nymName = None\<rparr>,
                        result_message = Some (ascii ''Not found'')\<rparr> [])]"

definition cached_info :: "int \<Rightarrow> PaynymInfo" where
  "cached_info t =
     \<lparr>PaynymInfo.code = ascii ''PM8Ttest'', PaynymInfo.nymID = Some (ascii ''nym123''),
      PaynymInfo.nymName = Some (ascii ''+cached''), avatar = None,
      PaynymInfo.followers = Some 0, PaynymInfo.following = Some 0, createdAt = None,
      cached_at = Some t\<rparr>"

text \<open>A parser that reads the text of one \<open>PaynymInfo\<close> and rejects every other text.\<close>

definition parse_only :: "PaynymInfo \<Rightarrow> parser" where
  "parse_only i s =
     (if s = JSON_stringify (PaynymInfo_json i) then Inr (Some i)
      else Inl (Error (ascii ''SyntaxError'')))"

definition world_at :: "(jsstring \<times> jsstring) list \<Rightarrow> int \<Rightarrow> world" where
  "world_at store t = \<lparr>storage = store, events = [], clock = (\<lambda>n. t), clock_reads = 0\<rparr>"

text \<open>
  A library for the examples: every seed has the payment code \<open>PM8Tmine\<close> and the
  notification key \<open>[1]\<close>, every key is valid, and every signature is 65 zero bytes.
\<close>

definition example_lib :: crypto where
  "example_lib =
     \<lparr>paymentCodeFromSeed = (\<lambda>seed. Inr (ascii ''PM8Tmine'')),
      notificationNodeFromSeed = (\<lambda>seed. Inr (Some \<lparr>privateKey = Some [1]\<rparr>)),
      ECPair_fromPrivateKey = (\<lambda>key. None),
      bitcoinMessage_sign = (\<lambda>tok key compressed. Inr (replicate 65 0))\<rparr>"

definition example_wallet :: "bool \<Rightarrow> jsstring list \<Rightarrow> jsstring list \<Rightarrow> wallet" where
  "example_wallet enabled send receive =
     \<lparr>secret = ascii ''reward upper indicate eight swift arch injury crystal super wrestle already dentist'',
      enable_BIP47 = enabled, send_payment_codes = send, receive_payment_codes = receive\<rparr>"

text \<open>
  The directory of the wallet tests as a transport: the lookup of a listed name is
  answered with its account and status 200, any other request with status 404,
  whatever was asked before.
\<close>

definition directory_of :: "(jsstring \<times> PaynymAccount) list \<Rightarrow> PaynymAccount transport" where
  "directory_of entries log req =
     (case find (\<lambda>entry. req = op_request (Nym (fst entry) False)) entries of
        Some entry \<Rightarrow> Inr (mockResponse 200 \<lparr>result_as = snd entry, result_message = None\<rparr> [])
      | None \<Rightarrow>
          Inr (mockResponse 404
                 \<lparr>result_as = \<lparr>codes = None, PaynymAccount.followers = None,
                               PaynymAccount.following = None, PaynymAccount.nymID = None,
                               PaynymAccount.nymName = None\<rparr>,
                  result_message = Some (ascii ''Not found'')\<rparr> []))"

definition account_with :: "code_entry list \<Rightarrow> jsstring list \<Rightarrow> PaynymAccount" where
  "account_with cs followed =
     \<lparr>codes = Some cs, PaynymAccount.followers = None,
      PaynymAccount.following = Some (map (\<lambda>n. \<lparr>nymId = n\<rparr>) followed),
      PaynymAccount.nymID = None, PaynymAccount.nymName = None\<rparr>"

definition code_A :: jsstring where
  "code_A = ascii ''PM8TJXuZNUtSibuXKFM6bhCxpNaSye6r4px2GXRV5v86uRdH9Raa8ZtXEkG7S4zLREf4ierjMsxLXSFTbRVUnRmvjw9qnc7zZbyXyBstSmjcb7uVcDYF''"

definition code_B :: jsstring where
  "code_B = ascii ''PM8TJS2JxQ5ztXUpBBRnpTbcUXbUHy2T1abfrb3KkAAtMEGNbey4oumH7Hc578WgQJhPjBxteQ5GHHToTYHE3A1w6p7tU6KSoFmWBVbFGjKPisZDbP97''"

definition code_C :: jsstring where
  "code_C = ascii ''PM8TJi1RuCrgSHTzGMoayUf8xUW6zYBGXBPSWwTiMhMMwqto7G6NA4z9pN5Kn8Pbhryo2eaHMFRRcidCGdB3VCDXJD4DdPD2ZyG3ScLMEvtStAetvPMo''"

text \<open>
  A directory in which the wallet follows three names: the first has a claimed code
  after an unclaimed one, the second has no claimed code, the third is unknown.
\<close>

definition following_three :: "PaynymAccount transport" where
  "following_three =
     directory_of
       [(ascii ''PM8Tmine'',
         account_with [\<lparr>claimed = True, segwit = None, code = ascii ''PM8Tmine''\<rparr>]
           [ascii ''alice_nym'', ascii ''bob_nym'', ascii ''carol_nym'']),
        (ascii ''alice_nym'',
         account_with [\<lparr>claimed = False, segwit = None, code = code_A\<rparr>,
                       \<lparr>claimed = True, segwit = None, code = code_B\<rparr>] []),
        (ascii ''bob_nym'',
         account_with [\<lparr>claimed = False, segwit = None, code = code_C\<rparr>,
                       \<lparr>claimed = False, segwit = None, code = code_A\<rparr>] [])]"

section \<open>Proofs\<close>

subsection \<open>Strings\<close>

lemma of_char_less_65536: "(of_char c :: nat) < 2 ^ 16"
proof -
  have "(of_char c :: nat) mod 256 < 256" by (rule mod_less_divisor) simp
  then have "(of_char c :: nat) < 256" by (simp only: of_char_mod_256)
  moreover have "(256::nat) \<le> 2 ^ 16" by simp
  ultimately show ?thesis by (rule less_le_trans)
qed

lemma ascii_eq_iff [simp]: "ascii a = ascii b \<longleftrightarrow> a = b"
proof -
  have "inj (\<lambda>c::char. (of_nat (of_char c) :: 16 word))"
  proof (rule injI)
    fix x y :: char
    assume "(of_nat (of_char x) :: 16 word) = of_nat (of_char y)"
    then have "unat (of_nat (of_char x) :: 16 word) = unat (of_nat (of_char y) :: 16 word)"
      by simp
    then have "(of_char x :: nat) = of_char y"
      using of_char_less_65536 [of x] of_char_less_65536 [of y] by (simp add: unat_of_nat)
    then show "x = y" by simp
  qed
  then show ?thesis unfolding ascii_def by (simp add: inj_map_eq_map)
qed

lemma ascii_Nil [simp]: "ascii [] = []" "ascii s = [] \<longleftrightarrow> s = []" "[] = ascii s \<longleftrightarrow> s = []"
  by (auto simp: ascii_def)

lemma ascii_append: "ascii (a @ b) = ascii a @ ascii b"
  by (simp add: ascii_def)

subsection \<open>The transport and the world\<close>

lemma requests_append [simp]: "requests (a @ b) = requests a @ requests b"
  by (induction a rule: requests.induct) simp_all

lemma post_unfold:
  "post tr e b h w =
     (let req = post_request e b h; first = tr (requests (events w)) req in
      case first of
        Inr r1 \<Rightarrow>
          if status r1 = 429 then
            (settle (tr (requests (events w) @ [req]) req),
             w\<lparr>events := events w @ [Fetch req, Timeout (retry_wait r1), Fetch req]\<rparr>)
          else (settle first, w\<lparr>events := events w @ [Fetch req]\<rparr>)
      | Inl x \<Rightarrow> (Inl x, w\<lparr>events := events w @ [Fetch req]\<rparr>))"
  by (auto simp: post_def fetch_def setTimeout_def settle_def Let_def split: sum.splits prod.splits)

lemma post_frame:
  "storage (snd (post tr e b h w)) = storage w"
  "clock (snd (post tr e b h w)) = clock w"
  "clock_reads (snd (post tr e b h w)) = clock_reads w"
  by (auto simp: post_unfold Let_def split: sum.splits)

lemma post_events:
  "events (snd (post tr e b h w)) =
     events w @ (case tr (requests (events w)) (post_request e b h) of
                   Inr r1 \<Rightarrow>
                     if status r1 = 429
                     then [Fetch (post_request e b h), Timeout (retry_wait r1), Fetch (post_request e b h)]
                     else [Fetch (post_request e b h)]
                 | Inl x \<Rightarrow> [Fetch (post_request e b h)])"
  by (auto simp: post_unfold Let_def split: sum.splits)

text \<open>Every operation leaves the world as its request leaves it.\<close>

lemma create_world: "snd (create tr c w) = snd (post tr (ascii ''/create'') (JObj [(ascii ''code'', JStr c)]) [] w)"
  by (simp add: create_def split: prod.splits sum.splits)

lemma token_world: "snd (token tr c w) = snd (post tr (ascii ''/token'') (JObj [(ascii ''code'', JStr c)]) [] w)"
  by (simp add: token_def split: prod.splits sum.splits)

lemma nym_world:
  "snd (nym tr n compact w) =
     snd (post tr (ascii ''/nym'')
            (JObj ([(ascii ''nym'', JStr n)] @ (if compact then [(ascii ''compact'', JBool True)] else [])))
            [] w)"
  by (simp add: nym_def Let_def split: prod.splits sum.splits)

lemma claim_world:
  "snd (claim tr t s w) =
     snd (post tr (ascii ''/claim'') (JObj [(ascii ''signature'', JStr s)]) [(ascii ''auth-token'', t)] w)"
  by (simp add: claim_def split: prod.splits sum.splits)

lemma follow_world:
  "snd (follow tr t s target w) =
     snd (post tr (ascii ''/follow'')
            (JObj [(ascii ''target'', JStr target), (ascii ''signature'', JStr s)])
            [(ascii ''auth-token'', t)] w)"
  by (simp add: follow_def split: prod.splits sum.splits)

lemma unfollow_world:
  "snd (unfollow tr t s target w) =
     snd (post tr (ascii ''/unfollow'')
            (JObj [(ascii ''target'', JStr target), (ascii ''signature'', JStr s)])
            [(ascii ''auth-token'', t)] w)"
  by (simp add: unfollow_def split: prod.splits sum.splits)

lemmas op_world = create_world token_world nym_world claim_world follow_world unfollow_world

subsection \<open>Status codes that are not ok\<close>

lemma caught_simps [simp]:
  "value (caught e) = None" "statusCode (caught e) = - 1"
  "message (caught (Error m)) = m"
  by (simp_all add: caught_def)

text \<open>A first response that is not ok and not 429 makes \<open>_post\<close> throw.\<close>

lemma post_not_ok:
  assumes "tr (requests (events w)) (post_request e b h) = Inr r" and "\<not> ok r" and "status r \<noteq> 429"
  shows "fst (post tr e b h w) = Inl (http_error r)"
  using assms by (simp add: post_unfold Let_def settle_def)

lemma http_error_mock:
  "http_error (mockResponse 404 d hs) = Error (ascii ''HTTP 404: Error'')"
  "http_error (mockResponse 400 d hs) = Error (ascii ''HTTP 400: Error'')"
  "http_error (mockResponse 401 d hs) = Error (ascii ''HTTP 401: Error'')"
  "http_error (mockResponse 429 d hs) = Error (ascii ''HTTP 429: Error'')"
  by (simp_all add: http_error_def mockResponse_def number_to_string_def digits.simps
        digit_char_def ascii_def)


subsection \<open>Decimal strings\<close>










lemma startsWith_Cons: "startsWith s (p # ps) \<Longrightarrow> \<exists>cs. s = p # cs \<and> startsWith cs ps"
  by (cases s) auto








subsection \<open>Clearing the cache\<close>

lemma storage_fold_removeItem:
  "storage (fold removeItem ks w) = filter (\<lambda>kv. fst kv \<notin> set ks) (storage w)"
proof (induction ks arbitrary: w)
  case Nil
  then show ?case by simp
next
  case (Cons k ks)
  have "storage (removeItem k w) = filter (\<lambda>kv. k \<noteq> fst kv) (storage w)"
    by (simp add: removeItem_def AList.delete_eq case_prod_unfold)
  with Cons show ?case by (auto intro: filter_cong)
qed

lemma rest_fold_removeItem:
  "events (fold removeItem ks w) = events w
   \<and> clock (fold removeItem ks w) = clock w \<and> clock_reads (fold removeItem ks w) = clock_reads w"
  by (induction ks arbitrary: w) (simp_all add: removeItem_def)

lemma clearCache_storage:
  "storage (clearCache w) = filter (\<lambda>kv. \<not> startsWith (fst kv) STORAGE_KEY_PREFIX) (storage w)"
  by (auto simp: clearCache_def getAllKeys_def storage_fold_removeItem intro!: filter_cong)

lemma map_of_filter_key:
  "map_of (filter (\<lambda>kv. P (fst kv)) xs) k = (if P k then map_of xs k else None)"
  by (induction xs) auto

text \<open>
  C9. \<open>clearCache\<close> removes every stored key that begins with the prefix
  \<open>paynym_dir_\<close> and leaves every other key with its value, whatever the store
  holds: a key with the prefix reads as absent afterwards, any other key reads as
  before, and the keys that remain are the keys without the prefix, in their order.
\<close>

theorem clearCache_removes_namespace:
  "getItem key (clearCache w) =
     (if startsWith key STORAGE_KEY_PREFIX then None else getItem key w)
   \<and> getAllKeys (clearCache w) =
       filter (\<lambda>k. \<not> startsWith k STORAGE_KEY_PREFIX) (getAllKeys w)"
  using map_of_filter_key [of "\<lambda>k. \<not> startsWith k STORAGE_KEY_PREFIX" "storage w" key]
  by (simp add: getItem_def getAllKeys_def clearCache_storage filter_map comp_def)

subsection \<open>Every operation goes through the same request\<close>

lemma perform_world:
  "snd (perform tr op w) = snd (post tr (op_endpoint op) (op_body op) (op_headers op) w)"
  by (cases op) (simp_all add: op_world)

lemma perform_thrown:
  "fst (post tr (op_endpoint op) (op_body op) (op_headers op) w) = Inl x
   \<Longrightarrow> fst (perform tr op w) = caught x"
  by (cases op;
      cases "post tr (op_endpoint op) (op_body op) (op_headers op) w";
      simp add: create_def token_def nym_def claim_def follow_def unfollow_def Let_def)


lemma perform_events:
  "events (snd (perform tr op w)) =
     events w @ (case tr (requests (events w)) (op_request op) of
                   Inr r1 \<Rightarrow>
                     if status r1 = 429
                     then [Fetch (op_request op), Timeout (retry_wait r1), Fetch (op_request op)]
                     else [Fetch (op_request op)]
                 | Inl x \<Rightarrow> [Fetch (op_request op)])"
  unfolding op_request_def by (simp add: perform_world post_events)

lemma perform_frame:
  "storage (snd (perform tr op w)) = storage w"
  "clock (snd (perform tr op w)) = clock w"
  "clock_reads (snd (perform tr op w)) = clock_reads w"
  by (simp_all add: perform_world post_frame)

text \<open>
  A first response that is not ok, and not 429, never reaches the \<open>switch\<close> of an
  operation: the operation returns the transport sentinel, with any status.
\<close>

lemma perform_not_ok:
  assumes "tr (requests (events w)) (op_request op) = Inr r" and "\<not> ok r" and "status r \<noteq> 429"
  shows "fst (perform tr op w) = caught (http_error r)"
  using assms post_not_ok [of tr w "op_endpoint op" "op_body op" "op_headers op" r]
  by (simp add: op_request_def perform_thrown)

text \<open>
  C1. What the code does on the responses the claim is about: \<open>token\<close> on a 404
  response, \<open>create\<close> on a 400 response and \<open>claim\<close> on a 401 response (the
  responses of the unit tests) return the status -1 with the message of the thrown
  error, not the status of the response with the message mapped to it.
\<close>

theorem expected_failure_status_returns_sentinel:
  "fst (token (mockFetch [Inr (mockResponse 404 not_found_body [])])
         (ascii ''PM8TNotInDatabase'') empty_world)
     = \<lparr>value = None, statusCode = - 1, message = ascii ''HTTP 404: Error''\<rparr>
   \<and> fst (create (mockFetch [Inr (mockResponse 400 not_found_body [])])
         (ascii ''invalid'') empty_world)
     = \<lparr>value = None, statusCode = - 1, message = ascii ''HTTP 400: Error''\<rparr>
   \<and> fst (claim (mockFetch [Inr (mockResponse 401 not_found_body [])])
         (ascii ''tok123'') (ascii ''bad_sig'') empty_world)
     = \<lparr>value = None, statusCode = - 1, message = ascii ''HTTP 401: Error''\<rparr>"
  by (simp add: token_def create_def claim_def post_unfold Let_def settle_def mockFetch_def
        caught_def http_error_mock empty_world_def)
     (simp add: mockResponse_def)

subsection \<open>Rate limiting\<close>












subsection \<open>Byte length\<close>

lemma length_utf8_encode_code_point:
  "length (utf8_encode_code_point cp) =
     (if cp < 0x80 then 1 else if cp < 0x800 then 2 else if cp < 0x10000 then 3 else 4)"
  by (simp add: utf8_encode_code_point_def)

lemma scalar_value_ascii: "scalar_value c < 0x80 \<longleftrightarrow> c < 0x80"
  by (auto simp: scalar_value_def is_high_surrogate_def is_low_surrogate_def word_le_nat_alt
        word_less_nat_alt)

lemma surrogate_not_ascii:
  "is_high_surrogate c \<Longrightarrow> 0x80 \<le> c" "is_low_surrogate c \<Longrightarrow> 0x80 \<le> c"
  by (auto simp: is_high_surrogate_def is_low_surrogate_def word_le_nat_alt)

lemma Blob_size_simps:
  "Blob_size [] = 0"
  "Blob_size [c] = length (utf8_encode_code_point (scalar_value c))"
  "Blob_size (c # d # cs) =
     (if is_high_surrogate c \<and> is_low_surrogate d then 4 + Blob_size cs
      else length (utf8_encode_code_point (scalar_value c)) + Blob_size (d # cs))"
  by (simp_all add: Blob_size_def utf8_encode_def length_utf8_encode_code_point)

lemma length_le_Blob_size:
  "length s + length (filter (\<lambda>c. 0x80 \<le> c) s) \<le> Blob_size s"
proof (induction s rule: code_points.induct)
  case 1
  then show ?case by (simp add: Blob_size_simps)
next
  case (2 c)
  then show ?case
    using scalar_value_ascii [of c]
    by (auto simp: Blob_size_simps length_utf8_encode_code_point not_less [symmetric])
next
  case (3 c d cs)
  show ?case
  proof (cases "is_high_surrogate c \<and> is_low_surrogate d")
    case True
    then show ?thesis
      using 3(1) surrogate_not_ascii(1) [of c] surrogate_not_ascii(2) [of d]
      by (simp add: Blob_size_simps)
  next
    case False
    then show ?thesis
      using 3(2) scalar_value_ascii [of c]
      by (auto simp: Blob_size_simps length_utf8_encode_code_point not_less [symmetric])
  qed
qed

lemma length_code_points: "length (code_points s) \<le> length s"
  by (induction s rule: code_points.induct) (auto simp: le_Suc_eq)

lemma multi_byte_longer:
  assumes "\<exists>c \<in> set s. 0x80 \<le> c"
  shows "length s < Blob_size s"
proof -
  from assms have "filter (\<lambda>c. 0x80 \<le> c) s \<noteq> []"
    by (simp add: filter_empty_conv)
  then have "0 < length (filter (\<lambda>c. 0x80 \<le> c) s)" by simp
  with length_le_Blob_size [of s] show ?thesis by linarith
qed

subsection \<open>The headers of a request\<close>

lemma map_of_fold_update_other:
  "k \<notin> fst ` set h \<Longrightarrow>
   map_of (fold (\<lambda>kv hs. AList.update (fst kv) (snd kv) hs) h base) k = map_of base k"
  by (induction h arbitrary: base) (auto simp: update_conv')

lemma content_length_header:
  assumes "ascii ''Content-Length'' \<notin> fst ` set h"
  shows "map_of (headers (post_request e b h)) (ascii ''Content-Length'')
           = Some (number_to_string (int (Blob_size (JSON_stringify b))))"
  using assms
  by (simp add: post_request_def Let_def request_headers_def map_of_fold_update_other)

lemma body_post_request: "body (post_request e b h) = JSON_stringify b"
  by (simp add: post_request_def Let_def)

lemma op_headers_keys: "ascii ''Content-Length'' \<notin> fst ` set (op_headers op)"
  by (cases op) simp_all

lemma perform_sends:
  "Fetch req \<in> set (events (snd (perform tr op w)))
   \<Longrightarrow> Fetch req \<in> set (events w) \<or> req = op_request op"
  by (auto simp: perform_events split: sum.splits if_splits)

text \<open>
  C7. Every request an operation hands to the transport carries the serialized JSON
  body and a \<open>Content-Length\<close> header whose value is the decimal number of bytes of
  the UTF-8 encoding of that body. The byte count is never below the number of
  characters of the body (its \<open>length\<close> in UTF-16 code units, which is in turn not
  below its number of code points), and exceeds it when the body has a character
  outside ASCII.
\<close>

theorem content_length_is_utf8_byte_length:
  assumes "Fetch req \<in> set (events (snd (perform tr op w)))"
      and "Fetch req \<notin> set (events w)"
  shows "body req = JSON_stringify (op_body op)
       \<and> map_of (headers req) (ascii ''Content-Length'')
           = Some (number_to_string (int (length (utf8_encode (body req)))))
       \<and> length (code_points (body req)) \<le> length (body req)
       \<and> length (body req) \<le> length (utf8_encode (body req))
       \<and> ((\<exists>c \<in> set (body req). 0x80 \<le> c)
            \<longrightarrow> length (body req) < length (utf8_encode (body req)))"
proof -
  have req: "req = post_request (op_endpoint op) (op_body op) (op_headers op)"
    using perform_sends [OF assms(1)] assms(2) by (simp add: op_request_def)
  show ?thesis
    using content_length_header [OF op_headers_keys, of "op_endpoint op" "op_body op" op]
      length_le_Blob_size [of "JSON_stringify (op_body op)"]
      multi_byte_longer [of "JSON_stringify (op_body op)"]
      length_code_points [of "JSON_stringify (op_body op)"]
    by (simp add: req body_post_request Blob_size_def)
qed

lemma accented_body:
  "JSON_stringify (op_body (Nym accented_nym False))
     = ascii ''{'' @ [0x22] @ ascii ''nym'' @ [0x22] @ ascii '':'' @ [0x22] @ ascii ''PM8T''
       @ [0xE9, 0xE8, 0xEA] @ [0x22] @ ascii ''}''"
  by (simp add: accented_nym_def QuoteJSONString_def quote_unit_def is_high_surrogate_def
        is_low_surrogate_def ascii_def)

theorem content_length_is_utf8_byte_length_witness:
  "Fetch (op_request (Nym accented_nym False))
     \<in> set (events (snd (perform account_found (Nym accented_nym False) empty_world)))
   \<and> Fetch (op_request (Nym accented_nym False)) \<notin> set (events empty_world)
   \<and> map_of (headers (op_request (Nym accented_nym False))) (ascii ''Content-Length'')
       = Some (ascii ''20'')
   \<and> length (body (op_request (Nym accented_nym False))) = 17
   \<and> (\<exists>c \<in> set (body (op_request (Nym accented_nym False))). 0x80 \<le> c)
   \<and> length (body (op_request (Nym accented_nym False)))
       < length (utf8_encode (body (op_request (Nym accented_nym False))))"
proof -
  let ?op = "Nym accented_nym False"
  have sent: "Fetch (op_request ?op) \<in> set (events (snd (perform account_found ?op empty_world)))"
    by (simp add: perform_events del: perform.simps split: sum.splits)
  have new: "Fetch (op_request ?op) \<notin> set (events empty_world)"
    by (simp add: empty_world_def)
  note t = content_length_is_utf8_byte_length
    [where tr = account_found and op = ?op and w = empty_world, OF sent new]
  have b: "body (op_request ?op) = JSON_stringify (op_body ?op)"
    by (simp add: op_request_def body_post_request)
  have len: "length (body (op_request ?op)) = 17"
    by (simp only: b accented_body) (simp add: ascii_def)
  have bytes: "length (utf8_encode (body (op_request ?op))) = 20"
    by (simp only: b accented_body)
       (simp add: ascii_def utf8_encode_def utf8_encode_code_point_def
          scalar_value_def is_high_surrogate_def is_low_surrogate_def)
  have twenty: "number_to_string (int 20) = ascii ''20''"
    by (simp add: number_to_string_def digits.simps digit_char_def ascii_def)
  have multi: "\<exists>c \<in> set (body (op_request ?op)). 0x80 \<le> c"
    by (simp only: b accented_body) simp
  show ?thesis
    using t sent new len bytes twenty multi by simp
qed

subsection \<open>The cache\<close>

lemma nym_frame:
  "storage (snd (nym tr n compact w)) = storage w"
  "clock (snd (nym tr n compact w)) = clock w"
  "clock_reads (snd (nym tr n compact w)) = clock_reads w"
  by (simp_all add: nym_world post_frame)


lemma getPaynymInfo_frame:
  "storage (snd (getPaynymInfo tr c w)) = storage w"
  "clock (snd (getPaynymInfo tr c w)) = clock w"
  "events (snd (getPaynymInfo tr c w)) = events (snd (nym tr c True w))"
  using nym_frame [of tr c True w]
  by (auto simp: getPaynymInfo_def Date_now_def split: prod.splits option.splits)


lemma cache_check_frame:
  "storage (snd (cache_check P c force w)) = storage w"
  "events (snd (cache_check P c force w)) = events w"
  "clock (snd (cache_check P c force w)) = clock w"
  by (auto simp: cache_check_def Date_now_def split: option.splits)

lemma cache_check_hit:
  "\<not> force \<Longrightarrow> fresh_entry P c w cached \<Longrightarrow>
   cache_check P c force w = (Some cached, w\<lparr>clock_reads := Suc (clock_reads w)\<rparr>)"
  by (auto simp: cache_check_def fresh_entry_def Date_now_def split: option.splits)

lemma cache_check_miss:
  "force \<or> \<not> (\<exists>cached. fresh_entry P c w cached) \<Longrightarrow> fst (cache_check P c force w) = None"
  by (auto simp: cache_check_def fresh_entry_def Date_now_def split: option.splits)

lemma cachePaynymInfo_frame:
  "events (cachePaynymInfo c i w) = events w"
  "getItem (STORAGE_KEY_PREFIX @ c) (cachePaynymInfo c i w) = Some (JSON_stringify (PaynymInfo_json i))"
  "storage (cachePaynymInfo c i w) =
     AList.update (STORAGE_KEY_PREFIX @ c) (JSON_stringify (PaynymInfo_json i)) (storage w)"
  by (simp_all add: cachePaynymInfo_def setItem_def getItem_def Let_def update_conv')

lemma getPaynymInfoCached_hit:
  assumes "\<not> force" and "fresh_entry P c w cached"
  shows "getPaynymInfoCached P tr c force w = (Some cached, w\<lparr>clock_reads := Suc (clock_reads w)\<rparr>)"
  by (simp add: getPaynymInfoCached_def cache_check_hit [OF assms])

lemma getPaynymInfoCached_miss:
  assumes "force \<or> \<not> (\<exists>cached. fresh_entry P c w cached)"
  shows "getPaynymInfoCached P tr c force w =
           (case getPaynymInfo tr c (snd (cache_check P c force w)) of
              (None, w2) \<Rightarrow> (None, w2)
            | (Some i, w2) \<Rightarrow> (Some i, cachePaynymInfo c i w2))"
  using cache_check_miss [OF assms]
  by (cases "cache_check P c force w") (simp add: getPaynymInfoCached_def)






lemma nym_result_cong:
  "events w' = events w \<Longrightarrow> fst (nym tr n k w') = fst (nym tr n k w)"
  by (auto simp: nym_def Let_def post_unfold split: sum.splits prod.splits)


lemma nym_failure:
  "tr (requests (events w)) (op_request (Nym c True)) = Inl x \<Longrightarrow> value (fst (nym tr c True w)) = None"
  "tr (requests (events w)) (op_request (Nym c True)) = Inr r \<Longrightarrow> \<not> ok r \<Longrightarrow> status r \<noteq> 429
   \<Longrightarrow> value (fst (nym tr c True w)) = None"
  by (simp_all add: nym_def Let_def post_unfold settle_def op_request_def)


lemma getPaynymInfo_failure:
  "value (fst (nym tr c True w)) = None \<Longrightarrow> fst (getPaynymInfo tr c w) = None"
  by (cases "nym tr c True w") (simp add: getPaynymInfo_def)



lemma getPaynymInfoCached_storage:
  "storage (snd (getPaynymInfoCached P tr c force w)) = storage w
   \<or> (\<exists>info. fst (getPaynymInfoCached P tr c force w) = Some info
         \<and> storage (snd (getPaynymInfoCached P tr c force w))
             = AList.update (STORAGE_KEY_PREFIX @ c) (JSON_stringify (PaynymInfo_json info)) (storage w))"
proof (cases "force \<or> \<not> (\<exists>cached. fresh_entry P c w cached)")
  case True
  let ?w1 = "snd (cache_check P c force w)"
  show ?thesis
    using getPaynymInfo_frame(1) [of tr c ?w1] cache_check_frame(1) [of P c force w]
    by (cases "getPaynymInfo tr c ?w1")
       (auto simp: getPaynymInfoCached_miss [OF True] cachePaynymInfo_frame split: option.splits)
next
  case False
  then obtain cached where "\<not> force" "fresh_entry P c w cached" by auto
  then show ?thesis by (simp add: getPaynymInfoCached_hit)
qed

lemma getPaynymInfoCached_None_storage:
  "fst (getPaynymInfoCached P tr c force w) = None
   \<Longrightarrow> storage (snd (getPaynymInfoCached P tr c force w)) = storage w"
  using getPaynymInfoCached_storage [of P tr c force w] by auto

lemma getPaynymInfoCached_failure:
  assumes "force \<or> \<not> (\<exists>cached. fresh_entry P c w cached)"
      and "value (fst (nym tr c True w)) = None"
  shows "fst (getPaynymInfoCached P tr c force w) = None"
proof -
  let ?w1 = "snd (cache_check P c force w)"
  have "value (fst (nym tr c True ?w1)) = None"
    using assms(2) nym_result_cong [of ?w1 w tr c True] by (simp add: cache_check_frame)
  then have "fst (getPaynymInfo tr c ?w1) = None" by (rule getPaynymInfo_failure)
  then show ?thesis
    by (cases "getPaynymInfo tr c ?w1") (simp add: getPaynymInfoCached_miss [OF assms(1)])
qed


lemma stringify_info_not_Nil: "JSON_stringify (PaynymInfo_json i) \<noteq> []"
  by (simp add: PaynymInfo_json_def)




text \<open>
  C10. When \<open>getPaynymInfoCached\<close> returns null the store is as before. When the
  fetch is performed and \<open>nym\<close> returns no account (the transport rejects, or the
  response is not ok), the result is null and the store is as before: nothing is
  written and nothing, stale or not, is removed. In every case the store is either
  unchanged, or a summary is returned and the store is the old one with that summary
  written under its key.
\<close>

theorem failed_fetch_leaves_cache_unchanged:
  "(fst (getPaynymInfoCached P tr c force w) = None
      \<longrightarrow> storage (snd (getPaynymInfoCached P tr c force w)) = storage w)
   \<and> ((force \<or> \<not> (\<exists>cached. fresh_entry P c w cached)) \<and> value (fst (nym tr c True w)) = None
      \<longrightarrow> fst (getPaynymInfoCached P tr c force w) = None
          \<and> storage (snd (getPaynymInfoCached P tr c force w)) = storage w)
   \<and> (\<forall>x. tr (requests (events w)) (op_request (Nym c True)) = Inl x
          \<longrightarrow> value (fst (nym tr c True w)) = None)
   \<and> (\<forall>r. tr (requests (events w)) (op_request (Nym c True)) = Inr r \<and> \<not> ok r \<and> status r \<noteq> 429
          \<longrightarrow> value (fst (nym tr c True w)) = None)
   \<and> (storage (snd (getPaynymInfoCached P tr c force w)) = storage w
       \<or> (\<exists>info. fst (getPaynymInfoCached P tr c force w) = Some info
             \<and> storage (snd (getPaynymInfoCached P tr c force w))
                 = AList.update (STORAGE_KEY_PREFIX @ c) (JSON_stringify (PaynymInfo_json info))
                     (storage w)))"
proof (intro conjI impI allI)
  assume "fst (getPaynymInfoCached P tr c force w) = None"
  then show "storage (snd (getPaynymInfoCached P tr c force w)) = storage w"
    by (rule getPaynymInfoCached_None_storage)
next
  assume "(force \<or> \<not> (\<exists>cached. fresh_entry P c w cached)) \<and> value (fst (nym tr c True w)) = None"
  then have n: "fst (getPaynymInfoCached P tr c force w) = None"
    using getPaynymInfoCached_failure [of force P c w tr] by blast
  then show "fst (getPaynymInfoCached P tr c force w) = None" .
  from n show "storage (snd (getPaynymInfoCached P tr c force w)) = storage w"
    by (rule getPaynymInfoCached_None_storage)
next
  fix x assume "tr (requests (events w)) (op_request (Nym c True)) = Inl x"
  then show "value (fst (nym tr c True w)) = None" by (rule nym_failure(1))
next
  fix r assume "tr (requests (events w)) (op_request (Nym c True)) = Inr r \<and> \<not> ok r \<and> status r \<noteq> 429"
  then show "value (fst (nym tr c True w)) = None" using nym_failure(2) [of tr w c r] by blast
next
  show "storage (snd (getPaynymInfoCached P tr c force w)) = storage w
       \<or> (\<exists>info. fst (getPaynymInfoCached P tr c force w) = Some info
             \<and> storage (snd (getPaynymInfoCached P tr c force w))
                 = AList.update (STORAGE_KEY_PREFIX @ c) (JSON_stringify (PaynymInfo_json info))
                     (storage w))"
    by (rule getPaynymInfoCached_storage)
qed

theorem failed_fetch_leaves_cache_unchanged_witness:
  "\<not> (\<exists>cached. fresh_entry (parse_only (cached_info 0)) (ascii ''PM8Ttest'')
        (world_at [(STORAGE_KEY_PREFIX @ ascii ''PM8Ttest'',
                    JSON_stringify (PaynymInfo_json (cached_info 0)))] 1000000000) cached)
   \<and> value (fst (nym account_missing (ascii ''PM8Ttest'') True
        (world_at [(STORAGE_KEY_PREFIX @ ascii ''PM8Ttest'',
                    JSON_stringify (PaynymInfo_json (cached_info 0)))] 1000000000))) = None
   \<and> fst (getPaynymInfoCached (parse_only (cached_info 0)) account_missing (ascii ''PM8Ttest'') False
        (world_at [(STORAGE_KEY_PREFIX @ ascii ''PM8Ttest'',
                    JSON_stringify (PaynymInfo_json (cached_info 0)))] 1000000000)) = None
   \<and> storage (snd (getPaynymInfoCached (parse_only (cached_info 0)) account_missing
                     (ascii ''PM8Ttest'') False
        (world_at [(STORAGE_KEY_PREFIX @ ascii ''PM8Ttest'',
                    JSON_stringify (PaynymInfo_json (cached_info 0)))] 1000000000)))
       = [(STORAGE_KEY_PREFIX @ ascii ''PM8Ttest'', JSON_stringify (PaynymInfo_json (cached_info 0)))]"
proof -
  let ?c = "ascii ''PM8Ttest''"
  let ?P = "parse_only (cached_info 0)"
  let ?w = "world_at [(STORAGE_KEY_PREFIX @ ?c, JSON_stringify (PaynymInfo_json (cached_info 0)))]
              1000000000"
  note t = failed_fetch_leaves_cache_unchanged
    [where P = ?P and tr = account_missing and c = ?c and w = ?w and force = False]
  have stale: "\<not> (\<exists>cached. fresh_entry ?P ?c ?w cached)"
    by (simp add: fresh_entry_def getCachedPaynymInfo_def getItem_def world_at_def parse_only_def
          stringify_info_not_Nil cached_info_def CACHE_DURATION_def)
  have answer: "\<exists>r. account_missing (requests (events ?w)) (op_request (Nym ?c True)) = Inr r
                  \<and> \<not> ok r \<and> status r \<noteq> 429"
    by (simp add: account_missing_def mockFetch_def world_at_def mockResponse_def)
  have none: "value (fst (nym account_missing ?c True ?w)) = None"
    using t answer by blast
  have "fst (getPaynymInfoCached ?P account_missing ?c False ?w) = None
        \<and> storage (snd (getPaynymInfoCached ?P account_missing ?c False ?w)) = storage ?w"
    using t stale none by blast
  then show ?thesis
    using stale none by (simp add: world_at_def)
qed

subsection \<open>The claim signature\<close>

text \<open>
  C8. For every token, \<open>generatePaynymClaimSignature\<close> throws the error
  \<open>BIP47 is not enabled for this wallet\<close>, and returns no signature, when the
  wallet's BIP47 switch is off.
\<close>

theorem claim_signature_requires_feature:
  "\<not> isBIP47Enabled w \<Longrightarrow>
   generatePaynymClaimSignature lib w tok
     = Inl (Error (ascii ''BIP47 is not enabled for this wallet''))"
  by (simp add: generatePaynymClaimSignature_def)

theorem claim_signature_requires_feature_witness:
  "\<not> isBIP47Enabled (example_wallet False [] [])
   \<and> generatePaynymClaimSignature example_lib (example_wallet False [] []) (ascii ''test_token'')
       = Inl (Error (ascii ''BIP47 is not enabled for this wallet''))"
proof -
  have off: "\<not> isBIP47Enabled (example_wallet False [] [])"
    by (simp add: isBIP47Enabled_def example_wallet_def)
  from claim_signature_requires_feature [OF off] off show ?thesis by simp
qed

text \<open>
  For a wallet that passes the checks, the claim signature is the base64 text of what
  \<open>bitcoinMessage.sign(token, key, true)\<close> returns, or the error it throws.
\<close>

lemma signature_of_token_and_key:
  assumes "ready_to_sign lib w key"
  shows "generatePaynymClaimSignature lib w tok =
           (case bitcoinMessage_sign lib tok key True of
              Inl e \<Rightarrow> Inl e
            | Inr signature \<Rightarrow> Inr (toString_base64 signature))"
  using assms
  by (auto simp: generatePaynymClaimSignature_def ready_to_sign_def allowBIP47_def
        split: sum.splits option.splits)

subsection \<open>The sender list\<close>

lemma addBIP47Receiver_fields [simp]:
  "receive_payment_codes (addBIP47Receiver w c) = receive_payment_codes w"
  "enable_BIP47 (addBIP47Receiver w c) = enable_BIP47 w"
  "secret (addBIP47Receiver w c) = secret w"
  by (simp_all add: addBIP47Receiver_def)

lemma addBIP47Receiver_send:
  "send_payment_codes (addBIP47Receiver w c) =
     (if c \<in> set (send_payment_codes w) then send_payment_codes w else send_payment_codes w @ [c])"
  by (simp add: addBIP47Receiver_def)

lemma distinct_count_list: "distinct xs \<Longrightarrow> x \<in> set xs \<Longrightarrow> count_list xs x = 1"
  by (induction xs) auto

text \<open>
  C6. Adding a payment code to the sender list is idempotent: a second addition changes
  nothing, a code that is present leaves the list as it is, and after an addition to a
  list without duplicates the list has no duplicates and holds the code exactly once.
  The receiver list is not touched, so a code that is in the receiver list is added
  and is then in both lists.
\<close>

theorem addBIP47Receiver_idempotent:
  "addBIP47Receiver (addBIP47Receiver w c) c = addBIP47Receiver w c
   \<and> c \<in> set (send_payment_codes (addBIP47Receiver w c))
   \<and> receive_payment_codes (addBIP47Receiver w c) = receive_payment_codes w
   \<and> (c \<in> set (send_payment_codes w)
        \<longrightarrow> send_payment_codes (addBIP47Receiver w c) = send_payment_codes w)
   \<and> (distinct (send_payment_codes w)
        \<longrightarrow> distinct (send_payment_codes (addBIP47Receiver w c))
            \<and> count_list (send_payment_codes (addBIP47Receiver w c)) c = 1)
   \<and> (c \<in> set (receive_payment_codes w)
        \<longrightarrow> c \<in> set (send_payment_codes (addBIP47Receiver w c))
            \<and> c \<in> set (receive_payment_codes (addBIP47Receiver w c)))"
  by (auto simp: addBIP47Receiver_def distinct_count_list)

theorem addBIP47Receiver_idempotent_witness:
  "distinct (send_payment_codes (example_wallet True [code_B] [code_A]))
   \<and> code_A \<in> set (receive_payment_codes (example_wallet True [code_B] [code_A]))
   \<and> send_payment_codes (addBIP47Receiver (example_wallet True [code_B] [code_A]) code_A)
       = [code_B, code_A]
   \<and> receive_payment_codes (addBIP47Receiver (example_wallet True [code_B] [code_A]) code_A)
       = [code_A]
   \<and> send_payment_codes
        (addBIP47Receiver (addBIP47Receiver (example_wallet True [code_B] [code_A]) code_A) code_A)
       = [code_B, code_A]
   \<and> count_list
        (send_payment_codes
           (addBIP47Receiver (addBIP47Receiver (example_wallet True [code_B] [code_A]) code_A)
              code_A)) code_A = 1"
proof -
  have ne: "code_A \<noteq> code_B"
    by (simp add: code_A_def code_B_def)
  note t = addBIP47Receiver_idempotent [of "example_wallet True [code_B] [code_A]" code_A]
  have d: "distinct (send_payment_codes (example_wallet True [code_B] [code_A]))"
    and r: "code_A \<in> set (receive_payment_codes (example_wallet True [code_B] [code_A]))"
    by (simp_all add: example_wallet_def)
  have one: "count_list (send_payment_codes
               (addBIP47Receiver (example_wallet True [code_B] [code_A]) code_A)) code_A = 1"
    using t d by blast
  have twice: "addBIP47Receiver (addBIP47Receiver (example_wallet True [code_B] [code_A]) code_A)
                 code_A = addBIP47Receiver (example_wallet True [code_B] [code_A]) code_A"
    using t by blast
  have s: "send_payment_codes (addBIP47Receiver (example_wallet True [code_B] [code_A]) code_A)
             = [code_B, code_A]"
    using ne by (simp add: addBIP47Receiver_def example_wallet_def)
  show ?thesis
    using d r one twice s by (simp add: example_wallet_def)
qed

subsection \<open>Reconciliation\<close>

lemma select_code_first_claimed:
  "claimed e \<Longrightarrow> \<forall>x \<in> set pre. \<not> claimed x \<Longrightarrow> select_code (pre @ e # rest) = Some (code_entry.code e)"
proof -
  assume "claimed e" "\<forall>x \<in> set pre. \<not> claimed x"
  then have "find claimed (pre @ e # rest) = Some e"
    by (induction pre) auto
  then show ?thesis by (simp add: select_code_def)
qed

lemma select_code_none_claimed:
  "\<forall>x \<in> set (e # rest). \<not> claimed x \<Longrightarrow> select_code (e # rest) = Some (code_entry.code e)"
proof -
  assume "\<forall>x \<in> set (e # rest). \<not> claimed x"
  then have "find claimed (e # rest) = None"
    by (simp add: find_None_iff)
  then show ?thesis by (simp add: select_code_def)
qed

lemma select_code_member:
  "select_code cs = Some c \<Longrightarrow> c \<in> code_entry.code ` set cs"
  by (auto simp: select_code_def find_Some_iff split: option.splits list.splits)

lemma reconcile_nym_step:
  "fst (reconcile_nym tr f (w, world)) = w
   \<or> (\<exists>c. fst (reconcile_nym tr f (w, world)) = addBIP47Receiver w c)"
  by (auto simp: reconcile_nym_def split: prod.splits option.splits)

lemma gained_step:
  assumes "gained w0 w new"
  shows "\<exists>new'. gained w0 (addBIP47Receiver w c) new' \<and> length new' \<le> Suc (length new)"
proof (cases "c \<in> set (send_payment_codes w)")
  case True
  then have "addBIP47Receiver w c = w" by (simp add: addBIP47Receiver_def)
  with assms show ?thesis by auto
next
  case False
  with assms have "gained w0 (addBIP47Receiver w c) (new @ [c])"
    by (auto simp: gained_def addBIP47Receiver_send)
  then show ?thesis by (intro exI [of _ "new @ [c]"]) simp
qed

lemma gained_fold:
  assumes "gained w0 w new"
  shows "\<exists>new'. gained w0 (fst (fold (reconcile_nym tr) fs (w, world))) new'
               \<and> length new' \<le> length new + length fs"
  using assms
proof (induction fs arbitrary: w world new)
  case Nil
  then show ?case by auto
next
  case (Cons f fs)
  obtain w1 world1 where s: "reconcile_nym tr f (w, world) = (w1, world1)"
    by (cases "reconcile_nym tr f (w, world)")
  have "\<exists>new1. gained w0 w1 new1 \<and> length new1 \<le> Suc (length new)"
    using reconcile_nym_step [of tr f w world] gained_step [OF Cons.prems] Cons.prems s
    by auto
  then obtain new1 where n1: "gained w0 w1 new1" "length new1 \<le> Suc (length new)" by blast
  from Cons.IH [OF n1(1), of world1] obtain new' where
    "gained w0 (fst (fold (reconcile_nym tr) fs (w1, world1))) new'"
    "length new' \<le> length new1 + length fs" by blast
  with n1(2) s show ?case
    by (intro exI [of _ new']) simp
qed

lemma gained_refl: "gained w w []"
  by (simp add: gained_def)

lemma reconcile_gains:
  "\<exists>new. gained w (fst (fetchBIP47ReceiverPaymentCodesViaPaynym lib tr w world)) new"
  using gained_fold [OF gained_refl, of w tr] gained_refl [of w]
  by (auto simp: fetchBIP47ReceiverPaymentCodesViaPaynym_def split: sum.splits prod.splits option.splits)

lemma reconcile_gains_bounded:
  assumes "getBIP47PaymentCode lib w = Inr pc"
      and "value (fst (nym tr pc False world)) = Some account"
      and "PaynymAccount.following account = Some fs"
  shows "\<exists>new. gained w (fst (fetchBIP47ReceiverPaymentCodesViaPaynym lib tr w world)) new
               \<and> length new \<le> length fs"
proof (cases "isBIP47Enabled w")
  case False
  then show ?thesis
    using gained_refl [of w] by (auto simp: fetchBIP47ReceiverPaymentCodesViaPaynym_def)
next
  case True
  obtain resp world' where n: "nym tr pc False world = (resp, world')"
    by (cases "nym tr pc False world")
  have "fst (fetchBIP47ReceiverPaymentCodesViaPaynym lib tr w world)
          = fst (fold (reconcile_nym tr) fs (w, world'))"
    using True assms n
    by (simp add: fetchBIP47ReceiverPaymentCodesViaPaynym_def allowBIP47_def)
  then show ?thesis
    using gained_fold [OF gained_refl, of w tr fs world'] by simp
qed

lemma reconcile_nym_selected:
  assumes "value (fst (nym tr (nymId f) False world)) = Some account"
      and "codes account = Some cs" and "select_code cs = Some c"
  shows "fst (reconcile_nym tr f (w, world)) = addBIP47Receiver w c"
  using assms by (cases "nym tr (nymId f) False world") (simp add: reconcile_nym_def)

lemma reconcile_no_op:
  "\<not> isBIP47Enabled w \<Longrightarrow> fetchBIP47ReceiverPaymentCodesViaPaynym lib tr w world = (w, world)"
  "getBIP47PaymentCode lib w = Inr pc \<Longrightarrow> value (fst (nym tr pc False world)) = None
   \<Longrightarrow> fst (fetchBIP47ReceiverPaymentCodesViaPaynym lib tr w world) = w"
  "getBIP47PaymentCode lib w = Inr pc \<Longrightarrow> value (fst (nym tr pc False world)) = Some account
   \<Longrightarrow> PaynymAccount.following account = None \<or> PaynymAccount.following account = Some []
   \<Longrightarrow> fst (fetchBIP47ReceiverPaymentCodesViaPaynym lib tr w world) = w"
  by (cases "nym tr pc False world";
      auto simp: fetchBIP47ReceiverPaymentCodesViaPaynym_def split: option.splits)+

lemma reconcile_nym_answered:
  assumes "\<forall>world'. value (fst (nym tr (nymId f) False world')) = answer (nymId f)"
  shows "fst (reconcile_nym tr f (w, world)) =
           (case selected answer f of None \<Rightarrow> w | Some c \<Rightarrow> addBIP47Receiver w c)"
proof -
  have "value (fst (nym tr (nymId f) False world)) = answer (nymId f)"
    using assms by blast
  then show ?thesis
    by (cases "nym tr (nymId f) False world")
       (auto simp: reconcile_nym_def selected_def split: option.splits)
qed

lemma fold_reconcile_fst:
  assumes "\<forall>f \<in> set fs. \<forall>world'. value (fst (nym tr (nymId f) False world')) = answer (nymId f)"
  shows "fst (fold (reconcile_nym tr) fs (w, world)) =
           fold (\<lambda>f w'. case selected answer f of None \<Rightarrow> w' | Some c \<Rightarrow> addBIP47Receiver w' c) fs w"
  using assms
proof (induction fs arbitrary: w world)
  case Nil
  then show ?case by simp
next
  case (Cons f fs)
  obtain w1 world1 where s: "reconcile_nym tr f (w, world) = (w1, world1)"
    by (cases "reconcile_nym tr f (w, world)")
  have w1: "w1 = (case selected answer f of None \<Rightarrow> w | Some c \<Rightarrow> addBIP47Receiver w c)"
    using reconcile_nym_answered [of tr f answer w world] Cons.prems s by simp
  have "\<forall>f \<in> set fs. \<forall>world'. value (fst (nym tr (nymId f) False world')) = answer (nymId f)"
    using Cons.prems by simp
  from Cons.IH [OF this, of w1 world1] s w1 show ?case by simp
qed

lemma reconcile_answered_fold:
  assumes "isBIP47Enabled w" and "getBIP47PaymentCode lib w = Inr pc"
      and "value (fst (nym tr pc False world)) = Some own"
      and "PaynymAccount.following own = Some fs"
      and "\<forall>f \<in> set fs. \<forall>world'. value (fst (nym tr (nymId f) False world')) = answer (nymId f)"
  shows "fst (fetchBIP47ReceiverPaymentCodesViaPaynym lib tr w world) =
           fold (\<lambda>f w'. case selected answer f of None \<Rightarrow> w' | Some c \<Rightarrow> addBIP47Receiver w' c) fs w"
proof -
  obtain resp world' where n: "nym tr pc False world = (resp, world')"
    by (cases "nym tr pc False world")
  have "fst (fetchBIP47ReceiverPaymentCodesViaPaynym lib tr w world)
          = fst (fold (reconcile_nym tr) fs (w, world'))"
    using assms(1-4) n
    by (simp add: fetchBIP47ReceiverPaymentCodesViaPaynym_def allowBIP47_def)
  then show ?thesis
    using fold_reconcile_fst [OF assms(5), of w world'] by simp
qed

lemma fold_reconcile_answered:
  assumes "\<forall>f \<in> set fs. \<forall>world'. value (fst (nym tr (nymId f) False world')) = answer (nymId f)"
  shows "\<exists>new. send_payment_codes (fst (fold (reconcile_nym tr) fs (w, world)))
                 = send_payment_codes w @ new
               \<and> distinct new
               \<and> set new = {c. \<exists>f \<in> set fs. selected answer f = Some c} - set (send_payment_codes w)"
  using assms
proof (induction fs arbitrary: w world)
  case Nil
  then show ?case by simp
next
  case (Cons f fs)
  obtain w1 world1 where s: "reconcile_nym tr f (w, world) = (w1, world1)"
    by (cases "reconcile_nym tr f (w, world)")
  have w1: "w1 = (case selected answer f of None \<Rightarrow> w | Some c \<Rightarrow> addBIP47Receiver w c)"
    using reconcile_nym_answered [of tr f answer w world] Cons.prems s by simp
  have "\<forall>f \<in> set fs. \<forall>world'. value (fst (nym tr (nymId f) False world')) = answer (nymId f)"
    using Cons.prems by simp
  from Cons.IH [OF this, of w1 world1] obtain new where new:
    "send_payment_codes (fst (fold (reconcile_nym tr) fs (w1, world1))) = send_payment_codes w1 @ new"
    "distinct new"
    "set new = {c. \<exists>f \<in> set fs. selected answer f = Some c} - set (send_payment_codes w1)"
    by blast
  show ?case
  proof (cases "selected answer f")
    case None
    then have "w1 = w" using w1 by simp
    with new None s show ?thesis
      by (intro exI [of _ new]) auto
  next
    case (Some c)
    then have w1': "w1 = addBIP47Receiver w c" using w1 by simp
    show ?thesis
    proof (cases "c \<in> set (send_payment_codes w)")
      case True
      then have "send_payment_codes w1 = send_payment_codes w"
        using w1' by (simp add: addBIP47Receiver_send)
      with new Some s True show ?thesis
        by (intro exI [of _ new]) auto
    next
      case False
      then have "send_payment_codes w1 = send_payment_codes w @ [c]"
        using w1' by (simp add: addBIP47Receiver_send)
      with new Some s False show ?thesis
        by (intro exI [of _ "c # new"]) auto
    qed
  qed
qed

lemma reconcile_answered:
  assumes "isBIP47Enabled w" and "getBIP47PaymentCode lib w = Inr pc"
      and "value (fst (nym tr pc False world)) = Some own"
      and "PaynymAccount.following own = Some fs"
      and "\<forall>f \<in> set fs. \<forall>world'. value (fst (nym tr (nymId f) False world')) = answer (nymId f)"
  shows "\<exists>new. send_payment_codes (fst (fetchBIP47ReceiverPaymentCodesViaPaynym lib tr w world))
                 = send_payment_codes w @ new
               \<and> distinct new
               \<and> set new = {c. \<exists>f \<in> set fs. selected answer f = Some c} - set (send_payment_codes w)"
proof -
  obtain resp world' where n: "nym tr pc False world = (resp, world')"
    by (cases "nym tr pc False world")
  have "fst (fetchBIP47ReceiverPaymentCodesViaPaynym lib tr w world)
          = fst (fold (reconcile_nym tr) fs (w, world'))"
    using assms(1-4) n
    by (simp add: fetchBIP47ReceiverPaymentCodesViaPaynym_def allowBIP47_def)
  then show ?thesis
    using fold_reconcile_answered [OF assms(5), of w world'] by simp
qed



lemma nym_lookup:
  "tr (requests (events w)) (op_request (Nym c False)) = Inr r \<Longrightarrow> ok r \<Longrightarrow> status r = 200
   \<Longrightarrow> json r = Inr data \<Longrightarrow> value (fst (nym tr c False w)) = Some (result_as data)"
  "tr (requests (events w)) (op_request (Nym c False)) = Inr r \<Longrightarrow> \<not> ok r \<Longrightarrow> status r \<noteq> 429
   \<Longrightarrow> value (fst (nym tr c False w)) = None"
  by (simp_all add: nym_def Let_def post_unfold settle_def op_request_def)

lemma directory_of_lookup:
  "value (fst (nym (directory_of entries) n False w)) =
     (case find (\<lambda>entry. op_request (Nym n False) = op_request (Nym (fst entry) False)) entries of
        Some entry \<Rightarrow> Some (snd entry)
      | None \<Rightarrow> None)"
proof (cases "find (\<lambda>entry. op_request (Nym n False) = op_request (Nym (fst entry) False)) entries")
  case None
  then have "directory_of entries (requests (events w)) (op_request (Nym n False))
               = Inr (mockResponse 404
                 \<lparr>result_as = \<lparr>codes = None, PaynymAccount.followers = None,
                               PaynymAccount.following = None, PaynymAccount.nymID = None,
                               PaynymAccount.nymName = None\<rparr>,
                  result_message = Some (ascii ''Not found'')\<rparr> [])"
    by (simp add: directory_of_def)
  then have "value (fst (nym (directory_of entries) n False w)) = None"
    by (rule nym_lookup(2)) (simp_all add: mockResponse_def)
  with None show ?thesis by simp
next
  case (Some entry)
  then have "directory_of entries (requests (events w)) (op_request (Nym n False))
               = Inr (mockResponse 200 \<lparr>result_as = snd entry, result_message = None\<rparr> [])"
    by (simp add: directory_of_def)
  then have "value (fst (nym (directory_of entries) n False w))
               = Some (result_as \<lparr>result_as = snd entry, result_message = None\<rparr>)"
    by (rule nym_lookup(1)) (simp_all add: mockResponse_def)
  with Some show ?thesis by simp
qed


lemma following_three_lookup:
  "value (fst (nym following_three (ascii ''PM8Tmine'') False w))
     = Some (account_with [\<lparr>claimed = True, segwit = None, code = ascii ''PM8Tmine''\<rparr>]
               [ascii ''alice_nym'', ascii ''bob_nym'', ascii ''carol_nym''])"
  "value (fst (nym following_three (ascii ''alice_nym'') False w))
     = Some (account_with [\<lparr>claimed = False, segwit = None, code = code_A\<rparr>,
                           \<lparr>claimed = True, segwit = None, code = code_B\<rparr>] [])"
  "value (fst (nym following_three (ascii ''bob_nym'') False w))
     = Some (account_with [\<lparr>claimed = False, segwit = None, code = code_C\<rparr>,
                           \<lparr>claimed = False, segwit = None, code = code_A\<rparr>] [])"
  "value (fst (nym following_three (ascii ''carol_nym'') False w)) = None"
  by (simp_all add: directory_of_lookup following_three_def op_request_def post_request_def
        Let_def QuoteJSONString_def quote_unit_def is_high_surrogate_def is_low_surrogate_def
        ascii_def)

lemma fold_reconcile_keeps:
  assumes "c \<in> set (send_payment_codes w)"
  shows "c \<in> set (send_payment_codes (fst (fold (reconcile_nym tr) fs (w, world))))"
proof -
  obtain new where "gained w (fst (fold (reconcile_nym tr) fs (w, world))) new"
    using gained_fold [OF gained_refl, of w tr fs world] by blast
  with assms show ?thesis by (simp add: gained_def)
qed

lemma reconcile_resolved_member:
  assumes "isBIP47Enabled w" and "getBIP47PaymentCode lib w = Inr pc"
      and "value (fst (nym tr pc False world)) = Some own"
      and "PaynymAccount.following own = Some (earlier @ f # later)"
      and "value (fst (nym tr (nymId f) False
                         (snd (fold (reconcile_nym tr) earlier (w, snd (nym tr pc False world))))))
             = Some account"
      and "codes account = Some cs" and "select_code cs = Some c"
  shows "c \<in> set (send_payment_codes (fst (fetchBIP47ReceiverPaymentCodesViaPaynym lib tr w world)))"
proof -
  obtain resp world' where n: "nym tr pc False world = (resp, world')"
    by (cases "nym tr pc False world")
  obtain wi worldi where i: "fold (reconcile_nym tr) earlier (w, world') = (wi, worldi)"
    by (cases "fold (reconcile_nym tr) earlier (w, world')")
  obtain wj worldj where j: "reconcile_nym tr f (wi, worldi) = (wj, worldj)"
    by (cases "reconcile_nym tr f (wi, worldi)")
  have "value (fst (nym tr (nymId f) False worldi)) = Some account"
    using assms(5) n i by simp
  then have "fst (reconcile_nym tr f (wi, worldi)) = addBIP47Receiver wi c"
    using assms(6,7) by (rule reconcile_nym_selected)
  then have "c \<in> set (send_payment_codes wj)"
    using j by (simp add: addBIP47Receiver_send)
  then have "c \<in> set (send_payment_codes (fst (fold (reconcile_nym tr) later (wj, worldj))))"
    by (rule fold_reconcile_keeps)
  moreover have "fst (fetchBIP47ReceiverPaymentCodesViaPaynym lib tr w world)
          = fst (fold (reconcile_nym tr) (earlier @ f # later) (w, world'))"
    using assms(1-4) n
    by (simp add: fetchBIP47ReceiverPaymentCodesViaPaynym_def allowBIP47_def)
  ultimately show ?thesis
    using i j by simp
qed

text \<open>
  C5. Reconciliation selects, for a followed nym, the first code flagged claimed, or
  the first code of the list when none is flagged. When the feature is enabled, the
  directory returns the wallet's own account, and the lookup of each followed name is
  answered by \<open>answer\<close>, the wallet that results is the wallet after adding, for each
  followed nym in order, the one code selected for it, through \<open>addBIP47Receiver\<close>:
  the sender list grows at its end by exactly the selected codes that it did not hold,
  each once. Whatever the directory answers, a followed nym whose lookup, when its turn
  comes, returns an account with codes has its selected code in the sender list
  afterwards, and the sender list only grows at its end, by codes that were not in it,
  each once, and by at most one code for each followed nym; the receiver list stays.
  Nothing changes, and nothing is thrown, when the feature is disabled (then the
  directory is not even asked), when the directory returns no account, or when the
  account has no \<open>following\<close> or an empty one.
\<close>

theorem reconcile_selects_one_code_per_nym:
  "(claimed e \<and> (\<forall>x \<in> set pre. \<not> claimed x)
      \<longrightarrow> select_code (pre @ e # rest) = Some (code_entry.code e))
   \<and> ((\<forall>x \<in> set (e # rest). \<not> claimed x)
      \<longrightarrow> select_code (e # rest) = Some (code_entry.code e))
   \<and> select_code [] = None
   \<and> (\<forall>pc own fs answer.
         isBIP47Enabled w \<and> getBIP47PaymentCode lib w = Inr pc
         \<and> value (fst (nym tr pc False world)) = Some own
         \<and> PaynymAccount.following own = Some fs
         \<and> (\<forall>f \<in> set fs. \<forall>world'. value (fst (nym tr (nymId f) False world')) = answer (nymId f))
      \<longrightarrow> fst (fetchBIP47ReceiverPaymentCodesViaPaynym lib tr w world)
            = fold (\<lambda>f w'. case selected answer f of
                              None \<Rightarrow> w'
                            | Some c \<Rightarrow> addBIP47Receiver w' c) fs w
          \<and> (\<exists>new. send_payment_codes (fst (fetchBIP47ReceiverPaymentCodesViaPaynym lib tr w world))
                    = send_payment_codes w @ new
                  \<and> distinct new
                  \<and> set new = {c. \<exists>f \<in> set fs. selected answer f = Some c}
                                - set (send_payment_codes w)))
   \<and> (\<forall>pc own earlier f later account cs c.
         isBIP47Enabled w \<and> getBIP47PaymentCode lib w = Inr pc
         \<and> value (fst (nym tr pc False world)) = Some own
         \<and> PaynymAccount.following own = Some (earlier @ f # later)
         \<and> value (fst (nym tr (nymId f) False
                           (snd (fold (reconcile_nym tr) earlier (w, snd (nym tr pc False world))))))
             = Some account
         \<and> codes account = Some cs \<and> select_code cs = Some c
      \<longrightarrow> c \<in> set (send_payment_codes (fst (fetchBIP47ReceiverPaymentCodesViaPaynym lib tr w world))))
   \<and> (\<exists>new. send_payment_codes (fst (fetchBIP47ReceiverPaymentCodesViaPaynym lib tr w world))
               = send_payment_codes w @ new
             \<and> distinct new \<and> set new \<inter> set (send_payment_codes w) = {}
             \<and> receive_payment_codes (fst (fetchBIP47ReceiverPaymentCodesViaPaynym lib tr w world))
                 = receive_payment_codes w)
   \<and> (\<forall>pc own fs. getBIP47PaymentCode lib w = Inr pc
         \<and> value (fst (nym tr pc False world)) = Some own
         \<and> PaynymAccount.following own = Some fs
      \<longrightarrow> length (send_payment_codes (fst (fetchBIP47ReceiverPaymentCodesViaPaynym lib tr w world)))
            \<le> length (send_payment_codes w) + length fs)
   \<and> (\<not> isBIP47Enabled w
      \<longrightarrow> fetchBIP47ReceiverPaymentCodesViaPaynym lib tr w world = (w, world))
   \<and> (\<forall>pc. getBIP47PaymentCode lib w = Inr pc \<and> value (fst (nym tr pc False world)) = None
      \<longrightarrow> fst (fetchBIP47ReceiverPaymentCodesViaPaynym lib tr w world) = w)
   \<and> (\<forall>pc own. getBIP47PaymentCode lib w = Inr pc
         \<and> value (fst (nym tr pc False world)) = Some own
         \<and> (PaynymAccount.following own = None \<or> PaynymAccount.following own = Some [])
      \<longrightarrow> fst (fetchBIP47ReceiverPaymentCodesViaPaynym lib tr w world) = w)"
proof (intro conjI impI allI)
  assume "claimed e \<and> (\<forall>x \<in> set pre. \<not> claimed x)"
  then show "select_code (pre @ e # rest) = Some (code_entry.code e)"
    by (simp add: select_code_first_claimed)
next
  assume "\<forall>x \<in> set (e # rest). \<not> claimed x"
  then show "select_code (e # rest) = Some (code_entry.code e)"
    by (rule select_code_none_claimed)
next
  show "select_code [] = None" by (simp add: select_code_def)
next
  fix pc own fs answer
  assume "isBIP47Enabled w \<and> getBIP47PaymentCode lib w = Inr pc
         \<and> value (fst (nym tr pc False world)) = Some own
         \<and> PaynymAccount.following own = Some fs
         \<and> (\<forall>f \<in> set fs. \<forall>world'. value (fst (nym tr (nymId f) False world')) = answer (nymId f))"
  then show "fst (fetchBIP47ReceiverPaymentCodesViaPaynym lib tr w world)
            = fold (\<lambda>f w'. case selected answer f of
                              None \<Rightarrow> w'
                            | Some c \<Rightarrow> addBIP47Receiver w' c) fs w"
    and "\<exists>new. send_payment_codes (fst (fetchBIP47ReceiverPaymentCodesViaPaynym lib tr w world))
                    = send_payment_codes w @ new
                  \<and> distinct new
                  \<and> set new = {c. \<exists>f \<in> set fs. selected answer f = Some c}
                                - set (send_payment_codes w)"
    using reconcile_answered_fold [of w lib pc tr world own fs answer]
      reconcile_answered [of w lib pc tr world own fs answer] by blast+
next
  fix pc own earlier f later account cs c
  assume "isBIP47Enabled w \<and> getBIP47PaymentCode lib w = Inr pc
         \<and> value (fst (nym tr pc False world)) = Some own
         \<and> PaynymAccount.following own = Some (earlier @ f # later)
         \<and> value (fst (nym tr (nymId f) False
                           (snd (fold (reconcile_nym tr) earlier (w, snd (nym tr pc False world))))))
             = Some account
         \<and> codes account = Some cs \<and> select_code cs = Some c"
  then show "c \<in> set (send_payment_codes (fst (fetchBIP47ReceiverPaymentCodesViaPaynym lib tr w world)))"
    using reconcile_resolved_member [of w lib pc tr world own earlier f later account cs c] by blast
next
  show "\<exists>new. send_payment_codes (fst (fetchBIP47ReceiverPaymentCodesViaPaynym lib tr w world))
               = send_payment_codes w @ new
             \<and> distinct new \<and> set new \<inter> set (send_payment_codes w) = {}
             \<and> receive_payment_codes (fst (fetchBIP47ReceiverPaymentCodesViaPaynym lib tr w world))
                 = receive_payment_codes w"
    using reconcile_gains [of w lib tr world] by (simp add: gained_def)
next
  fix pc own fs
  assume "getBIP47PaymentCode lib w = Inr pc
         \<and> value (fst (nym tr pc False world)) = Some own
         \<and> PaynymAccount.following own = Some fs"
  then obtain new where
    "gained w (fst (fetchBIP47ReceiverPaymentCodesViaPaynym lib tr w world)) new"
    "length new \<le> length fs"
    using reconcile_gains_bounded [of lib w pc tr world own fs] by blast
  then show "length (send_payment_codes (fst (fetchBIP47ReceiverPaymentCodesViaPaynym lib tr w world)))
            \<le> length (send_payment_codes w) + length fs"
    by (simp add: gained_def)
next
  assume "\<not> isBIP47Enabled w"
  then show "fetchBIP47ReceiverPaymentCodesViaPaynym lib tr w world = (w, world)"
    by (rule reconcile_no_op(1))
next
  fix pc
  assume "getBIP47PaymentCode lib w = Inr pc \<and> value (fst (nym tr pc False world)) = None"
  then show "fst (fetchBIP47ReceiverPaymentCodesViaPaynym lib tr w world) = w"
    using reconcile_no_op(2) [of lib w pc tr world] by blast
next
  fix pc own
  assume "getBIP47PaymentCode lib w = Inr pc
         \<and> value (fst (nym tr pc False world)) = Some own
         \<and> (PaynymAccount.following own = None \<or> PaynymAccount.following own = Some [])"
  then show "fst (fetchBIP47ReceiverPaymentCodesViaPaynym lib tr w world) = w"
    using reconcile_no_op(3) [of lib w pc tr world own] by blast
qed


theorem reconcile_selects_one_code_per_nym_witness:
  "select_code [\<lparr>claimed = False, segwit = None, code = code_A\<rparr>,
                \<lparr>claimed = True, segwit = None, code = code_B\<rparr>] = Some code_B
   \<and> select_code [\<lparr>claimed = False, segwit = None, code = code_C\<rparr>,
                  \<lparr>claimed = False, segwit = None, code = code_A\<rparr>] = Some code_C
   \<and> send_payment_codes
        (fst (fetchBIP47ReceiverPaymentCodesViaPaynym example_lib following_three
                (example_wallet True [] []) empty_world)) = [code_B, code_C]
   \<and> send_payment_codes
        (fst (fetchBIP47ReceiverPaymentCodesViaPaynym example_lib following_three
                (example_wallet True [code_C] [code_A]) empty_world)) = [code_C, code_B]
   \<and> receive_payment_codes
        (fst (fetchBIP47ReceiverPaymentCodesViaPaynym example_lib following_three
                (example_wallet True [code_C] [code_A]) empty_world)) = [code_A]
   \<and> code_C \<in> set (send_payment_codes
                      (fst (fetchBIP47ReceiverPaymentCodesViaPaynym example_lib following_three
                              (example_wallet True [] []) empty_world)))
   \<and> \<not> isBIP47Enabled (example_wallet False [] [])
   \<and> fetchBIP47ReceiverPaymentCodesViaPaynym example_lib following_three
        (example_wallet False [] []) empty_world
       = (example_wallet False [] [], empty_world)
   \<and> getBIP47PaymentCode example_lib (example_wallet True [code_A] []) = Inr (ascii ''PM8Tmine'')
   \<and> value (fst (nym account_missing (ascii ''PM8Tmine'') False empty_world)) = None
   \<and> fst (fetchBIP47ReceiverPaymentCodesViaPaynym example_lib account_missing
            (example_wallet True [code_A] []) empty_world)
       = example_wallet True [code_A] []
   \<and> PaynymAccount.following (result_as account_body) = Some []
   \<and> fst (fetchBIP47ReceiverPaymentCodesViaPaynym example_lib account_found
            (example_wallet True [code_A] []) empty_world)
       = example_wallet True [code_A] []"
proof -
  let ?A = "\<lparr>claimed = False, segwit = None, code = code_A\<rparr>"
  let ?B = "\<lparr>claimed = True, segwit = None, code = code_B\<rparr>"
  let ?C = "\<lparr>claimed = False, segwit = None, code = code_C\<rparr>"
  let ?own = "account_with [\<lparr>claimed = True, segwit = None, code = ascii ''PM8Tmine''\<rparr>]
                [ascii ''alice_nym'', ascii ''bob_nym'', ascii ''carol_nym'']"
  let ?fs = "[\<lparr>nymId = ascii ''alice_nym''\<rparr>, \<lparr>nymId = ascii ''bob_nym''\<rparr>,
              \<lparr>nymId = ascii ''carol_nym''\<rparr>]"
  let ?answer = "\<lambda>n. if n = ascii ''alice_nym'' then Some (account_with [?A, ?B] [])
                      else if n = ascii ''bob_nym'' then Some (account_with [?C, ?A] [])
                      else None"
  have ne: "code_A \<noteq> code_B" "code_B \<noteq> code_C" "code_A \<noteq> code_C" "code_C \<noteq> code_B"
    by (simp_all add: code_A_def code_B_def code_C_def)
  have on: "isBIP47Enabled (example_wallet True send receive)" for send receive
    by (simp add: isBIP47Enabled_def example_wallet_def)
  have off: "\<not> isBIP47Enabled (example_wallet False [] [])"
    by (simp add: isBIP47Enabled_def example_wallet_def)
  have pc: "getBIP47PaymentCode example_lib (example_wallet True send receive) = Inr (ascii ''PM8Tmine'')"
    for send receive
    by (simp add: getBIP47PaymentCode_def example_lib_def)
  have own: "value (fst (nym following_three (ascii ''PM8Tmine'') False empty_world)) = Some ?own"
    by (rule following_three_lookup(1))
  have fs: "PaynymAccount.following ?own = Some ?fs"
    by (simp add: account_with_def)
  have answered: "\<forall>f \<in> set ?fs. \<forall>world'.
      value (fst (nym following_three (nymId f) False world')) = ?answer (nymId f)"
    by (simp add: following_three_lookup)
  note pick = reconcile_selects_one_code_per_nym
    [where e = ?B and pre = "[?A]" and rest = "[]" and lib = example_lib
       and tr = following_three and w = "example_wallet True [] []" and world = empty_world]
  note first = reconcile_selects_one_code_per_nym
    [where e = ?C and rest = "[?A]" and lib = example_lib and tr = following_three
       and w = "example_wallet True [code_C] [code_A]" and world = empty_world]
  note disabled = reconcile_selects_one_code_per_nym
    [where lib = example_lib and tr = following_three and w = "example_wallet False [] []"
       and world = empty_world]
  note missing = reconcile_selects_one_code_per_nym
    [where lib = example_lib and tr = account_missing and w = "example_wallet True [code_A] []"
       and world = empty_world]
  note empty = reconcile_selects_one_code_per_nym
    [where lib = example_lib and tr = account_found and w = "example_wallet True [code_A] []"
       and world = empty_world]
  have s1: "select_code [?A, ?B] = Some code_B"
    using pick [THEN conjunct1] by simp
  have s2: "select_code [?C, ?A] = Some code_C"
    using first [THEN conjunct2, THEN conjunct1] by simp
  have sel: "selected ?answer \<lparr>nymId = ascii ''alice_nym''\<rparr> = Some code_B"
    "selected ?answer \<lparr>nymId = ascii ''bob_nym''\<rparr> = Some code_C"
    "selected ?answer \<lparr>nymId = ascii ''carol_nym''\<rparr> = None"
    using s1 s2 by (simp_all add: selected_def account_with_def)
  note main1 = pick [THEN conjunct2, THEN conjunct2, THEN conjunct2, THEN conjunct1, rule_format,
      where pc = "ascii ''PM8Tmine''" and own = ?own and fs = ?fs and answer = ?answer]
  note main2 = first [THEN conjunct2, THEN conjunct2, THEN conjunct2, THEN conjunct1, rule_format,
      where pc = "ascii ''PM8Tmine''" and own = ?own and fs = ?fs and answer = ?answer]
  have run1: "fst (fetchBIP47ReceiverPaymentCodesViaPaynym example_lib following_three
                     (example_wallet True [] []) empty_world)
              = fold (\<lambda>f w'. case selected ?answer f of None \<Rightarrow> w' | Some c \<Rightarrow> addBIP47Receiver w' c)
                  ?fs (example_wallet True [] [])"
    by (rule main1 [THEN conjunct1]) (intro conjI on pc own fs answered)
  have run2: "fst (fetchBIP47ReceiverPaymentCodesViaPaynym example_lib following_three
                     (example_wallet True [code_C] [code_A]) empty_world)
              = fold (\<lambda>f w'. case selected ?answer f of None \<Rightarrow> w' | Some c \<Rightarrow> addBIP47Receiver w' c)
                  ?fs (example_wallet True [code_C] [code_A])"
    by (rule main2 [THEN conjunct1]) (intro conjI on pc own fs answered)
  note member = pick [THEN conjunct2, THEN conjunct2, THEN conjunct2, THEN conjunct2, THEN conjunct1, rule_format,
      where pc = "ascii ''PM8Tmine''" and own = ?own and earlier = "[\<lparr>nymId = ascii ''alice_nym''\<rparr>]"
        and f = "\<lparr>nymId = ascii ''bob_nym''\<rparr>" and later = "[\<lparr>nymId = ascii ''carol_nym''\<rparr>]"
        and account = "account_with [?C, ?A] []" and cs = "[?C, ?A]" and c = code_C]
  have bob: "value (fst (nym following_three (nymId \<lparr>nymId = ascii ''bob_nym''\<rparr>) False world'))
               = Some (account_with [?C, ?A] [])" for world'
    by (simp add: following_three_lookup)
  have bob_codes: "codes (account_with [?C, ?A] []) = Some [?C, ?A]"
    by (simp add: account_with_def)
  have fs': "PaynymAccount.following ?own
               = Some ([\<lparr>nymId = ascii ''alice_nym''\<rparr>] @ \<lparr>nymId = ascii ''bob_nym''\<rparr>
                         # [\<lparr>nymId = ascii ''carol_nym''\<rparr>])"
    by (simp add: account_with_def)
  have m: "code_C \<in> set (send_payment_codes
                      (fst (fetchBIP47ReceiverPaymentCodesViaPaynym example_lib following_three
                              (example_wallet True [] []) empty_world)))"
    by (rule member) (intro conjI on pc own fs' bob bob_codes s2)
  have r1: "send_payment_codes
              (fst (fetchBIP47ReceiverPaymentCodesViaPaynym example_lib following_three
                      (example_wallet True [] []) empty_world)) = [code_B, code_C]"
    unfolding run1 using ne by (simp add: sel addBIP47Receiver_send) (simp add: example_wallet_def)
  have r2: "send_payment_codes
              (fst (fetchBIP47ReceiverPaymentCodesViaPaynym example_lib following_three
                      (example_wallet True [code_C] [code_A]) empty_world)) = [code_C, code_B]"
    and r3: "receive_payment_codes
              (fst (fetchBIP47ReceiverPaymentCodesViaPaynym example_lib following_three
                      (example_wallet True [code_C] [code_A]) empty_world)) = [code_A]"
    unfolding run2 using ne
    by (simp_all add: sel addBIP47Receiver_send) (simp_all add: example_wallet_def)
  have d: "fetchBIP47ReceiverPaymentCodesViaPaynym example_lib following_three
             (example_wallet False [] []) empty_world
           = (example_wallet False [] [], empty_world)"
    using disabled [THEN conjunct2, THEN conjunct2, THEN conjunct2, THEN conjunct2, THEN conjunct2, THEN conjunct2, THEN conjunct2, THEN conjunct1] off by (rule mp)
  have none: "value (fst (nym account_missing (ascii ''PM8Tmine'') False empty_world)) = None"
    by (simp add: nym_def Let_def post_unfold settle_def account_missing_def mockFetch_def
          mockResponse_def empty_world_def caught_def)
  have no_account: "fst (fetchBIP47ReceiverPaymentCodesViaPaynym example_lib account_missing
                          (example_wallet True [code_A] []) empty_world)
                    = example_wallet True [code_A] []"
    using missing [THEN conjunct2, THEN conjunct2, THEN conjunct2, THEN conjunct2, THEN conjunct2, THEN conjunct2, THEN conjunct2, THEN conjunct2, THEN conjunct1, rule_format, where pc = "ascii ''PM8Tmine''"] pc none by simp
  have found: "value (fst (nym account_found (ascii ''PM8Tmine'') False empty_world))
                 = Some (result_as account_body)"
    by (simp add: nym_def Let_def post_unfold settle_def account_found_def mockFetch_def
          mockResponse_def empty_world_def)
  have nobody: "PaynymAccount.following (result_as account_body) = Some []"
    by (simp add: account_body_def)
  have no_following: "fst (fetchBIP47ReceiverPaymentCodesViaPaynym example_lib account_found
                          (example_wallet True [code_A] []) empty_world)
                    = example_wallet True [code_A] []"
    using empty [THEN conjunct2, THEN conjunct2, THEN conjunct2, THEN conjunct2, THEN conjunct2, THEN conjunct2, THEN conjunct2, THEN conjunct2, THEN conjunct2, rule_format, where pc = "ascii ''PM8Tmine''" and own = "result_as account_body"]
      pc found nobody by simp
  show ?thesis
    using s1 s2 r1 r2 r3 m off d pc none no_account nobody no_following by simp
qed

end
